theory Spec2Isabelle
  imports Complex_Main "HOL-Library.Sublist" "HOL-Library.Log_Nat"
begin

chapter \<open>ToolHub: freemium accounting, AI routes, SEO scores, PDF and image tools\<close>

section \<open>Python values shared by the models\<close>

text \<open>
  Exceptions are values. Each constructor is one Python exception class and carries the
  message; \<open>LibraryError\<close> stands for whatever a third-party library raises.
\<close>

datatype exn =
    ValueError string
  | TypeError string
  | AttributeError string
  | FileNotFoundError string
  | ImportError string
  | OverflowError string
  | ZeroDivisionError string
  | LibraryError string
  | OSError string
  | Exception string

fun str_exn :: "exn \<Rightarrow> string" where
  "str_exn (ValueError m) = m"
| "str_exn (TypeError m) = m"
| "str_exn (AttributeError m) = m"
| "str_exn (FileNotFoundError m) = m"
| "str_exn (ImportError m) = m"
| "str_exn (OverflowError m) = m"
| "str_exn (ZeroDivisionError m) = m"
| "str_exn (LibraryError m) = m"
| "str_exn (OSError m) = m"
| "str_exn (Exception m) = m"

section \<open>JSON values and truthiness\<close>

datatype json =
    JNull
  | JBool bool
  | JNum rat
  | JStr string
  | JArr "json list"
  | JObj "(string \<times> json) list"

text \<open>\<open>not v\<close> is \<open>\<not> truthy v\<close>.\<close>

fun truthy :: "json \<Rightarrow> bool" where
  "truthy JNull = False"
| "truthy (JBool b) = b"
| "truthy (JNum x) = (x \<noteq> 0)"
| "truthy (JStr s) = (s \<noteq> [])"
| "truthy (JArr xs) = (xs \<noteq> [])"
| "truthy (JObj kvs) = (kvs \<noteq> [])"

text \<open>
  \<open>data.get(key)\<close> on a parsed JSON object: a key that occurs twice keeps its last value,
  a missing key gives \<open>None\<close>.
\<close>

definition dict_get :: "(string \<times> json) list \<Rightarrow> string \<Rightarrow> json" where
  "dict_get kvs k = (case map_of (rev kvs) k of None \<Rightarrow> JNull | Some v \<Rightarrow> v)"

section \<open>models/database.py: users and usage records\<close>

datatype UserRole = FREE | PREMIUM

datatype PlanType = MONTHLY | YEARLY | LIFETIME

record date =
  year :: nat
  month :: nat
  day :: nat

record datetime =
  on_date :: date
  seconds :: nat

record user =
  id :: int
  username :: string
  email :: string
  role :: UserRole
  plan_type :: "PlanType option"
  is_active :: bool

text \<open>
  A usage row. \<open>input_data\<close> and \<open>output_data\<close> hold the Python value that was bound to
  the column (\<open>None\<close>, or the sliced value).
\<close>

record usage =
  user_id :: int
  tool_name :: string
  used_at :: datetime
  input_data :: "json option"
  output_data :: "json option"

text \<open>The database session, as far as these models read and write it: the usage table.\<close>

type_synonym db = "usage list"

definition is_premium :: "user \<Rightarrow> bool" where
  "is_premium u = (role u = PREMIUM)"

text \<open>\<open>self.usage_records\<close>: the rows of the usage table that belong to the user.\<close>

definition usage_records :: "db \<Rightarrow> user \<Rightarrow> usage list" where
  "usage_records d u = filter (\<lambda>r. user_id r = id u) d"

text \<open>
  \<open>get_daily_usage_count(tool_name=None, target_date=None)\<close>. The first argument of the
  model is \<open>date.today()\<close>. An empty tool name is falsy, like \<open>None\<close>.
\<close>

definition get_daily_usage_count ::
  "date \<Rightarrow> db \<Rightarrow> user \<Rightarrow> string option \<Rightarrow> date option \<Rightarrow> nat" where
  "get_daily_usage_count today d u tool target =
     (let target_date = (case target of None \<Rightarrow> today | Some t \<Rightarrow> t);
          query = filter (\<lambda>r. on_date (used_at r) = target_date) (usage_records d u);
          query' = (case tool of
                      None \<Rightarrow> query
                    | Some t \<Rightarrow> if t = [] then query else filter (\<lambda>r. tool_name r = t) query)
      in length query')"

definition can_use_tool :: "date \<Rightarrow> db \<Rightarrow> user \<Rightarrow> string \<Rightarrow> bool" where
  "can_use_tool today d u tool =
     (if is_premium u then True
      else get_daily_usage_count today d u None None < 3)"

section \<open>Python strings\<close>

text \<open>
  Strings are lists of 8-bit characters (code points up to 255). \<open>str.strip()\<close> removes
  the characters for which \<open>str.isspace()\<close> holds; below 256 these are the ones listed.
\<close>

definition is_space :: "char \<Rightarrow> bool" where
  "is_space c = ((of_char c :: nat) \<in> {9, 10, 11, 12, 13, 28, 29, 30, 31, 32, 133, 160})"

definition py_strip :: "string \<Rightarrow> string" where
  "py_strip s = rev (dropWhile is_space (rev (dropWhile is_space s)))"

definition digit_char :: "nat \<Rightarrow> char" where
  "digit_char n = char_of (48 + n)"

text \<open>\<open>str(n)\<close> for a natural number: its decimal digits.\<close>

fun str_nat :: "nat \<Rightarrow> string" where
  "str_nat n = (if n < 10 then [digit_char n] else str_nat (n div 10) @ [digit_char (n mod 10)])"

declare str_nat.simps [simp del]

definition str_int :: "int \<Rightarrow> string" where
  "str_int i = (if i < 0 then CHR ''-'' # str_nat (nat (- i)) else str_nat (nat i))"

definition is_digit :: "char \<Rightarrow> bool" where
  "is_digit c = (48 \<le> (of_char c :: nat) \<and> (of_char c :: nat) \<le> 57)"

definition digit_val :: "char \<Rightarrow> nat" where
  "digit_val c = of_char c - 48"

text \<open>
  The digits of an integer literal as \<open>int(str)\<close> reads them: decimal digits, where a
  single underscore may stand between two digits. \<open>None\<close> is \<open>ValueError\<close>.
\<close>

fun parse_digits :: "nat \<Rightarrow> string \<Rightarrow> nat option" where
  "parse_digits acc [] = Some acc"
| "parse_digits acc (c # cs) =
     (if is_digit c then parse_digits (acc * 10 + digit_val c) cs
      else if c = CHR ''_'' then
        (case cs of
           [] \<Rightarrow> None
         | d # ds \<Rightarrow> if is_digit d then parse_digits acc cs else None)
      else None)"

definition parse_nat :: "string \<Rightarrow> nat option" where
  "parse_nat s =
     (case s of [] \<Rightarrow> None | c # cs \<Rightarrow> if is_digit c then parse_digits 0 s else None)"

text \<open>
  \<open>int(s)\<close> for a string: surrounding whitespace is dropped, then an optional sign, then
  the digits. Unlike \<open>str.strip()\<close>, \<open>int()\<close> does not take the separators U+001C to U+001F
  for whitespace.
\<close>

definition is_int_space :: "char \<Rightarrow> bool" where
  "is_int_space c = ((of_char c :: nat) \<in> {9, 10, 11, 12, 13, 32, 133, 160})"

definition py_int :: "string \<Rightarrow> int option" where
  "py_int s =
     (case rev (dropWhile is_int_space (rev (dropWhile is_int_space s))) of
        [] \<Rightarrow> None
      | c # cs \<Rightarrow>
          if c = CHR ''-'' then map_option (\<lambda>n. - int n) (parse_nat cs)
          else if c = CHR ''+'' then map_option int (parse_nat cs)
          else map_option int (parse_nat (c # cs)))"

section \<open>services/gemini\_service.py\<close>

text \<open>
  What one call of the API client does: it raises, or it returns a response whose
  \<open>text\<close> is \<open>None\<close> or a string.
\<close>

datatype api_outcome = ApiRaises exn | ApiText "string option"

text \<open>
  The service's surroundings: whether a client exists once \<open>_initialize_client\<close> has been
  retried, and the outcome of the n-th API call.
\<close>

record gemini =
  client_ready :: bool
  api_call :: "nat \<Rightarrow> api_outcome"

text \<open>The retry loop \<open>for attempt in range(max_retries)\<close>, from \<open>attempt\<close> on.\<close>

fun attempts :: "gemini \<Rightarrow> nat \<Rightarrow> nat \<Rightarrow> nat \<Rightarrow> string" where
  "attempts g max_retries attempt 0 = ''Failed to generate content after multiple attempts.''"
| "attempts g max_retries attempt (Suc left) =
     (case api_call g attempt of
        ApiText (Some t) \<Rightarrow>
          if t \<noteq> [] then py_strip t else attempts g max_retries (attempt + 1) left
      | ApiText None \<Rightarrow> attempts g max_retries (attempt + 1) left
      | ApiRaises e \<Rightarrow>
          if attempt < max_retries - 1 then attempts g max_retries (attempt + 1) left
          else ''AI generation failed: '' @ str_exn e)"

definition generate_content_retry :: "gemini \<Rightarrow> nat \<Rightarrow> string" where
  "generate_content_retry g max_retries =
     (if \<not> client_ready g
      then ''AI service is currently unavailable. Please check configuration.''
      else attempts g max_retries 0 max_retries)"

definition generate_content :: "gemini \<Rightarrow> string" where
  "generate_content g = generate_content_retry g 3"

section \<open>routes/ai\_tools.py\<close>

text \<open>Flask-Login's \<open>current_user\<close>: the anonymous user, or a loaded account.\<close>

datatype current_user = AnonymousUser | LoggedIn user

fun is_authenticated :: "current_user \<Rightarrow> bool" where
  "is_authenticated AnonymousUser = False"
| "is_authenticated (LoggedIn u) = True"

text \<open>What a request sees of the world besides the database.\<close>

record env =
  today :: date
  utcnow :: datetime
  commit_ok :: bool
  service :: gemini

record limit_check =
  allowed :: bool
  message :: string
  redirect :: "string option"

fun check_usage_limit :: "env \<Rightarrow> db \<Rightarrow> current_user \<Rightarrow> string \<Rightarrow> limit_check" where
  "check_usage_limit e d AnonymousUser tool =
     \<lparr>allowed = False, message = ''Please login to use AI tools'',
      redirect = Some ''auth.login''\<rparr>"
| "check_usage_limit e d (LoggedIn u) tool =
     (if is_premium u
      then \<lparr>allowed = True, message = ''Premium user - unlimited access'', redirect = None\<rparr>
      else
        let daily_usage = get_daily_usage_count (today e) d u None None in
        if daily_usage \<ge> 3
        then \<lparr>allowed = False,
               message = ''Daily limit reached ('' @ str_nat daily_usage
                  @ ''/3). Upgrade to Premium for unlimited access.'',
               redirect = Some ''auth.upgrade''\<rparr>
        else \<lparr>allowed = True,
               message = ''Free usage: '' @ str_nat (daily_usage + 1) @ ''/3 today'',
               redirect = None\<rparr>)"

text \<open>
  \<open>v[:n] if v else None\<close> for a value that came out of a JSON body: strings and lists can
  be sliced, the other truthy values raise.
\<close>

fun slice_or_none :: "nat \<Rightarrow> json \<Rightarrow> exn + json option" where
  "slice_or_none n (JStr s) = Inr (if s \<noteq> [] then Some (JStr (take n s)) else None)"
| "slice_or_none n (JArr xs) = Inr (if xs \<noteq> [] then Some (JArr (take n xs)) else None)"
| "slice_or_none n v =
     (if truthy v then Inl (TypeError ''object is not subscriptable'') else Inr None)"

text \<open>
  \<open>record_usage(tool_name, input_data, output_data)\<close>: only a free, authenticated user is
  recorded; an exception while the row is built or committed is logged and swallowed.
  The commit raises when the session cannot commit, and when a value that is neither
  \<open>None\<close> nor a string is to be bound to one of the two text columns.
\<close>

fun text_column :: "json option \<Rightarrow> bool" where
  "text_column None = True"
| "text_column (Some (JStr s)) = True"
| "text_column (Some v) = False"

fun record_usage :: "env \<Rightarrow> db \<Rightarrow> current_user \<Rightarrow> string \<Rightarrow> json \<Rightarrow> json \<Rightarrow> db" where
  "record_usage e d AnonymousUser tool inp outp = d"
| "record_usage e d (LoggedIn u) tool inp outp =
     (if \<not> is_premium u then
        (case slice_or_none 500 inp of
           Inl err \<Rightarrow> d
         | Inr i \<Rightarrow>
             (case slice_or_none 1000 outp of
                Inl err \<Rightarrow> d
              | Inr out \<Rightarrow>
                  if commit_ok e \<and> text_column i \<and> text_column out
                  then d @ [\<lparr>user_id = id u, tool_name = tool, used_at = utcnow e,
                             input_data = i, output_data = out\<rparr>]
                  else d))
      else d)"

text \<open>
  What a view function leaves behind: the response (status and JSON body, or a rendered
  page), the database, and the number of calls made to the AI service.
\<close>

datatype body = Json "(string \<times> json) list" | Page string

record outcome =
  status :: nat
  payload :: body
  db_after :: db
  ai_calls :: nat

definition respond :: "nat \<Rightarrow> body \<Rightarrow> db \<Rightarrow> nat \<Rightarrow> outcome" where
  "respond s b d n = \<lparr>status = s, payload = b, db_after = d, ai_calls = n\<rparr>"

definition unavailable_prefix :: string where
  "unavailable_prefix = ''AI service is currently unavailable''"

text \<open>
  The body of \<open>ai_generate\<close>. The request argument is what \<open>request.json\<close> gives: it raises
  (no JSON content type, malformed JSON) or it is the parsed value.
\<close>

definition ai_generate :: "env \<Rightarrow> db \<Rightarrow> current_user \<Rightarrow> exn + json \<Rightarrow> outcome" where
  "ai_generate e d cu request_json =
     (let failed = respond 500 (Json [(''error'', JStr ''Content generation failed'')]) d in
      case request_json of
        Inl err \<Rightarrow> failed 0
      | Inr (JObj kvs) \<Rightarrow>
          let prompt = dict_get kvs ''prompt'' in
          if \<not> truthy prompt
          then respond 400 (Json [(''error'', JStr ''Prompt is required'')]) d 0
          else
            let usage_check = check_usage_limit e d cu ''ai_generate'' in
            if \<not> allowed usage_check
            then respond 403 (Json [(''error'', JStr (message usage_check))]) d 0
            else
              let response = generate_content (service e) in
              if prefix unavailable_prefix response
              then respond 503 (Json [(''error'', JStr response)]) d 1
              else
                let d' = record_usage e d cu ''ai_generate'' prompt (JStr response)
                in respond 200 (Json [(''output'', JStr response)]) d' 1
      | Inr other \<Rightarrow> failed 0)"

text \<open>
  \<open>@login_required\<close> with \<open>login_view = 'auth.login'\<close>: an unauthenticated request is
  redirected and the view does not run.
\<close>

definition login_required :: "db \<Rightarrow> current_user \<Rightarrow> outcome \<Rightarrow> outcome" where
  "login_required d cu view =
     (if is_authenticated cu then view else respond 302 (Page ''auth.login'') d 0)"

definition ai_generate_route :: "env \<Rightarrow> db \<Rightarrow> current_user \<Rightarrow> exn + json \<Rightarrow> outcome" where
  "ai_generate_route e d cu request_json = login_required d cu (ai_generate e d cu request_json)"

text \<open>
  The ten form tools (\<open>blog_generator\<close> ... \<open>ad_copy\<close>) are one view written ten times:
  they differ in the name they account usage under, in the form fields they read and in
  their messages.
\<close>

datatype tool =
    BlogGenerator | ArticleSummarizer | Paraphraser | GrammarChecker | HeadlineGenerator
  | MetaDescription | ProductDescription | EmailWriter | SocialMedia | AdCopy

fun usage_name :: "tool \<Rightarrow> string" where
  "usage_name BlogGenerator = ''blog_generator''"
| "usage_name ArticleSummarizer = ''article_summarizer''"
| "usage_name Paraphraser = ''paraphraser''"
| "usage_name GrammarChecker = ''grammar_checker''"
| "usage_name HeadlineGenerator = ''headline_generator''"
| "usage_name MetaDescription = ''meta_description_generator''"
| "usage_name ProductDescription = ''product_description_generator''"
| "usage_name EmailWriter = ''email_writer''"
| "usage_name SocialMedia = ''social_media_generator''"
| "usage_name AdCopy = ''ad_copy_generator''"

fun failure_message :: "tool \<Rightarrow> string" where
  "failure_message BlogGenerator = ''Generation failed. Please try again.''"
| "failure_message ArticleSummarizer = ''Summarization failed. Please try again.''"
| "failure_message Paraphraser = ''Paraphrasing failed. Please try again.''"
| "failure_message GrammarChecker = ''Grammar check failed. Please try again.''"
| "failure_message HeadlineGenerator = ''Headline generation failed. Please try again.''"
| "failure_message MetaDescription = ''Meta description generation failed. Please try again.''"
| "failure_message ProductDescription =
     ''Product description generation failed. Please try again.''"
| "failure_message EmailWriter = ''Email generation failed. Please try again.''"
| "failure_message SocialMedia = ''Caption generation failed. Please try again.''"
| "failure_message AdCopy = ''Ad copy generation failed. Please try again.''"

fun template :: "tool \<Rightarrow> string" where
  "template BlogGenerator = ''ai_tools/blog_generator.html''"
| "template ArticleSummarizer = ''ai_tools/article_summarizer.html''"
| "template Paraphraser = ''ai_tools/paraphraser.html''"
| "template GrammarChecker = ''ai_tools/grammar_checker.html''"
| "template HeadlineGenerator = ''ai_tools/headline_generator.html''"
| "template MetaDescription = ''ai_tools/meta_description.html''"
| "template ProductDescription = ''ai_tools/product_description.html''"
| "template EmailWriter = ''ai_tools/email_writer.html''"
| "template SocialMedia = ''ai_tools/social_media.html''"
| "template AdCopy = ''ai_tools/ad_copy.html''"

type_synonym form = "string \<Rightarrow> string option"

definition form_get :: "form \<Rightarrow> string \<Rightarrow> string \<Rightarrow> string" where
  "form_get f k dflt = (case f k of None \<Rightarrow> dflt | Some v \<Rightarrow> v)"

text \<open>\<open>int(request.form.get(k, n))\<close>: the default is already an integer.\<close>

definition form_int :: "form \<Rightarrow> string \<Rightarrow> int \<Rightarrow> exn + int" where
  "form_int f k dflt =
     (case f k of
        None \<Rightarrow> Inr dflt
      | Some v \<Rightarrow>
          (case py_int v of
             None \<Rightarrow> Inl (ValueError ''invalid literal for int() with base 10'')
           | Some i \<Rightarrow> Inr i))"

text \<open>
  What the \<open>try\<close> block does before it calls the service: it raises, it rejects the form
  with a message, or it goes on with the input summary that is later recorded.
\<close>

datatype form_result = Rejected string | Accepted string

definition required :: "string \<Rightarrow> string \<Rightarrow> string \<Rightarrow> form_result" where
  "required field msg summary = (if field = [] then Rejected msg else Accepted summary)"

fun read_form :: "tool \<Rightarrow> form \<Rightarrow> exn + form_result" where
  "read_form BlogGenerator f =
     (let topic = py_strip (form_get f ''topic'' []);
          keywords = py_strip (form_get f ''keywords'' [])
      in case form_int f ''word_count'' 800 of
           Inl err \<Rightarrow> Inl err
         | Inr word_count \<Rightarrow>
             Inr (required topic ''Topic is required''
                    (''Topic: '' @ topic @ '', Keywords: '' @ keywords)))"
| "read_form ArticleSummarizer f =
     (let content = py_strip (form_get f ''content'' [])
      in if content = [] then Inr (Rejected ''Content is required'')
         else if length content < 100 then Inr (Rejected ''Content is too short to summarize'')
         else Inr (Accepted (''Length: '' @ str_nat (length content) @ '' chars'')))"
| "read_form Paraphraser f =
     (let text = py_strip (form_get f ''text'' []);
          style = form_get f ''style'' ''formal''
      in Inr (required text ''Text is required''
                (''Style: '' @ style @ '', Length: '' @ str_nat (length text))))"
| "read_form GrammarChecker f =
     (let text = py_strip (form_get f ''text'' [])
      in Inr (required text ''Text is required''
                (''Length: '' @ str_nat (length text) @ '' chars'')))"
| "read_form HeadlineGenerator f =
     (let topic = py_strip (form_get f ''topic'' [])
      in case form_int f ''count'' 10 of
           Inl err \<Rightarrow> Inl err
         | Inr count \<Rightarrow>
             Inr (required topic ''Topic is required''
                    (''Topic: '' @ topic @ '', Count: '' @ str_int count)))"
| "read_form MetaDescription f =
     (let title = py_strip (form_get f ''title'' []);
          keywords = py_strip (form_get f ''keywords'' [])
      in Inr (required title ''Title is required''
                (''Title: '' @ title @ '', Keywords: '' @ keywords)))"
| "read_form ProductDescription f =
     (let product_name = py_strip (form_get f ''product_name'' [])
      in Inr (required product_name ''Product name is required''
                (''Product: '' @ product_name)))"
| "read_form EmailWriter f =
     (let purpose = py_strip (form_get f ''purpose'' [])
      in Inr (required purpose ''Email purpose is required'' (''Purpose: '' @ purpose)))"
| "read_form SocialMedia f =
     (let platform = form_get f ''platform'' ''instagram'';
          topic = py_strip (form_get f ''topic'' [])
      in Inr (required topic ''Topic is required''
                (''Platform: '' @ platform @ '', Topic: '' @ topic)))"
| "read_form AdCopy f =
     (let product_service = py_strip (form_get f ''product_service'' []);
          platform = form_get f ''platform'' ''facebook''
      in Inr (required product_service ''Product/service description is required''
                (''Product: '' @ product_service @ '', Platform: '' @ platform)))"

datatype http_method = GET | POST

definition json_opt :: "string option \<Rightarrow> json" where
  "json_opt r = (case r of None \<Rightarrow> JNull | Some s \<Rightarrow> JStr s)"

text \<open>The body of a form tool's view function.\<close>

definition ai_tool ::
  "tool \<Rightarrow> env \<Rightarrow> db \<Rightarrow> current_user \<Rightarrow> http_method \<Rightarrow> form \<Rightarrow> outcome" where
  "ai_tool t e d cu method f =
     (if method = POST then
        let limit = check_usage_limit e d cu (usage_name t) in
        if \<not> allowed limit
        then respond 200
               (Json [(''success'', JBool False), (''error'', JStr (message limit)),
                      (''redirect'', json_opt (redirect limit))]) d 0
        else
          (case read_form t f of
             Inl err \<Rightarrow>
               respond 200
                 (Json [(''success'', JBool False), (''error'', JStr (failure_message t))]) d 0
           | Inr (Rejected msg) \<Rightarrow>
               respond 200 (Json [(''success'', JBool False), (''error'', JStr msg)]) d 0
           | Inr (Accepted summary) \<Rightarrow>
               let result = generate_content (service e);
                   d' = record_usage e d cu (usage_name t) (JStr summary)
                          (JStr (take 200 result))
               in respond 200
                    (Json [(''success'', JBool True), (''result'', JStr result),
                           (''message'', JStr (message limit))]) d' 1)
      else respond 200 (Page (template t)) d 0)"

definition ai_tool_route ::
  "tool \<Rightarrow> env \<Rightarrow> db \<Rightarrow> current_user \<Rightarrow> http_method \<Rightarrow> form \<Rightarrow> outcome" where
  "ai_tool_route t e d cu method f = login_required d cu (ai_tool t e d cu method f)"

section \<open>tools/pdf\_merge.py\<close>

text \<open>
  The file system is the set of paths that exist (files and directories alike).
\<close>

type_synonym fs = "string set"

text \<open>
  What PyPDF2 and the operating system do during one merge, each step failing or not:
  constructing the merger, opening and appending an input, opening the output for
  writing, writing, closing; and what \<open>os.remove\<close> does with an existing path: it raises
  (a directory, a path that may not be removed) or it removes the path.
\<close>

record pdf_lib =
  new_merger :: "exn option"
  append :: "string \<Rightarrow> exn option"
  open_output :: "exn option"
  write_output :: "exn option"
  close_merger :: "exn option"
  os_remove :: "string \<Rightarrow> exn option"

text \<open>The loop over the inputs stops at the first one that fails.\<close>

fun append_all :: "pdf_lib \<Rightarrow> string list \<Rightarrow> exn option" where
  "append_all lib [] = None"
| "append_all lib (p # ps) =
     (case append lib p of Some e \<Rightarrow> Some e | None \<Rightarrow> append_all lib ps)"

text \<open>The \<open>try\<close> block of \<open>merge_pdfs\<close>: opening the output creates it.\<close>

definition merge_steps :: "pdf_lib \<Rightarrow> string list \<Rightarrow> string \<Rightarrow> fs \<Rightarrow> exn option \<times> fs" where
  "merge_steps lib pdf_paths output_path files =
     (case new_merger lib of
        Some e \<Rightarrow> (Some e, files)
      | None \<Rightarrow>
          (case append_all lib pdf_paths of
             Some e \<Rightarrow> (Some e, files)
           | None \<Rightarrow>
               (case open_output lib of
                  Some e \<Rightarrow> (Some e, files)
                | None \<Rightarrow>
                    (case write_output lib of
                       Some e \<Rightarrow> (Some e, insert output_path files)
                     | None \<Rightarrow>
                         (case close_merger lib of
                            Some e \<Rightarrow> (Some e, insert output_path files)
                          | None \<Rightarrow> (None, insert output_path files))))))"

text \<open>
  \<open>merge_pdfs(pdf_paths, output_filename=None)\<close>. The second argument is what
  \<open>tempfile.mkstemp\<close> does when it is called: it raises, or it creates a file and gives
  its path. In the handler \<open>os.remove\<close> is called when the output path exists; what it
  raises leaves the handler as it is, before the wrapped exception is reached.
\<close>

definition merge_pdfs ::
  "pdf_lib \<Rightarrow> exn + string \<Rightarrow> fs \<Rightarrow> string list \<Rightarrow> string option \<Rightarrow> (exn + string) \<times> fs" where
  "merge_pdfs lib mkstemp files pdf_paths output_filename =
     (if pdf_paths = [] \<or> length pdf_paths < 2
      then (Inl (ValueError ''At least 2 PDF files are required for merging''), files)
      else
        (case find (\<lambda>p. p \<notin> files) pdf_paths of
           Some p \<Rightarrow> (Inl (FileNotFoundError (''PDF file not found: '' @ p)), files)
         | None \<Rightarrow>
             (case (case output_filename of None \<Rightarrow> mkstemp | Some n \<Rightarrow> Inr n) of
                Inl e \<Rightarrow> (Inl e, files)
              | Inr output_path \<Rightarrow>
                  let files1 = (if output_filename = None then insert output_path files
                                else files)
                  in (case merge_steps lib pdf_paths output_path files1 of
                        (None, files2) \<Rightarrow> (Inr output_path, files2)
                      | (Some e, files2) \<Rightarrow>
                          if output_path \<in> files2 then
                            (case os_remove lib output_path of
                               Some removal \<Rightarrow> (Inl removal, files2)
                             | None \<Rightarrow>
                                 (Inl (Exception (''Failed to merge PDFs: '' @ str_exn e)),
                                  files2 - {output_path}))
                          else
                            (Inl (Exception (''Failed to merge PDFs: '' @ str_exn e)),
                             files2)))))"

section \<open>routes/tools.py: the merge route\<close>

definition py_lower :: "string \<Rightarrow> string" where
  "py_lower s =
     map (\<lambda>c. let n = (of_char c :: nat)
              in if (65 \<le> n \<and> n \<le> 90) \<or> (192 \<le> n \<and> n \<le> 222 \<and> n \<noteq> 215)
                 then char_of (n + 32) else c) s"

definition ALLOWED_EXTENSIONS :: "string list" where
  "ALLOWED_EXTENSIONS =
     [''pdf'', ''png'', ''jpg'', ''jpeg'', ''gif'', ''bmp'', ''svg'', ''txt'', ''doc'',
      ''docx'', ''mp3'', ''mp4'', ''avi'', ''mov'', ''wav'']"

definition tool_extensions :: "(string \<times> string list) list" where
  "tool_extensions =
     [(''convert_from_pdf'', [''pdf'']),
      (''convert_to_pdf'', [''doc'', ''docx'', ''xls'', ''xlsx'', ''ppt'', ''pptx'']),
      (''extract_text'', [''pdf'']),
      (''merge'', [''pdf'']), (''split'', [''pdf'']), (''compress'', [''pdf'']),
      (''rotate'', [''pdf'']), (''protect'', [''pdf'']), (''watermark'', [''pdf'']),
      (''organize'', [''pdf'']), (''unlock'', [''pdf'']), (''ocr'', [''pdf'']),
      (''compare'', [''pdf'']), (''redact'', [''pdf'']), (''edit'', [''pdf'']),
      (''sign'', [''pdf''])]"

text \<open>\<open>filename.rsplit('.', 1)[1]\<close>: what follows the last dot.\<close>

definition after_last_dot :: "string \<Rightarrow> string" where
  "after_last_dot s = rev (takeWhile (\<lambda>c. c \<noteq> CHR ''.'') (rev s))"

definition allowed_file :: "string \<Rightarrow> string option \<Rightarrow> bool" where
  "allowed_file name tool =
     (if CHR ''.'' \<notin> set name then False
      else
        let ext = py_lower (after_last_dot name) in
        case (case tool of None \<Rightarrow> None
              | Some t \<Rightarrow> if t = [] then None else map_of tool_extensions t) of
          Some exts \<Rightarrow> ext \<in> set exts
        | None \<Rightarrow> ext \<in> set ALLOWED_EXTENSIONS)"

text \<open>
  An uploaded file, as far as the route looks at it: its name (empty when the part has
  none). What the route cannot decide by itself comes from its surroundings: the path an
  upload is saved under, whether saving fails, whether PyPDF2 was imported, the library
  and \<open>mkstemp\<close>, and whether sending the result fails.
\<close>

record upload =
  filename :: string

record merge_env =
  upload_path :: "string \<Rightarrow> string"
  save :: "string \<Rightarrow> exn option"
  pypdf2_imported :: bool
  merger_lib :: pdf_lib
  make_temp :: "exn + string"
  send_file :: "string \<Rightarrow> exn option"

record file_response =
  code :: nat
  error :: "string option"
  sent :: "string option"
  files_after :: fs

text \<open>The loop that saves the uploads with an allowed name, up to the first failure.\<close>

fun save_uploads ::
  "merge_env \<Rightarrow> upload list \<Rightarrow> string list \<Rightarrow> fs \<Rightarrow> (exn + string list) \<times> fs" where
  "save_uploads m [] input_paths files = (Inr input_paths, files)"
| "save_uploads m (f # fs) input_paths files =
     (if filename f \<noteq> [] \<and> allowed_file (filename f) (Some ''merge'')
      then
        let filepath = upload_path m (filename f) in
        case save m filepath of
          Some e \<Rightarrow> (Inl e, files)
        | None \<Rightarrow> save_uploads m fs (input_paths @ [filepath]) (insert filepath files)
      else save_uploads m fs input_paths files)"

text \<open>
  The clean-up loop \<open>for path in input_paths: if os.path.exists(path): os.remove(path)\<close>,
  up to the first removal that raises.
\<close>

fun remove_inputs :: "pdf_lib \<Rightarrow> string list \<Rightarrow> fs \<Rightarrow> exn option \<times> fs" where
  "remove_inputs lib [] files = (None, files)"
| "remove_inputs lib (p # ps) files =
     (if p \<in> files then
        (case os_remove lib p of
           Some e \<Rightarrow> (Some e, files)
         | None \<Rightarrow> remove_inputs lib ps (files - {p}))
      else remove_inputs lib ps files)"

definition merge_failed :: "exn \<Rightarrow> fs \<Rightarrow> file_response" where
  "merge_failed e files =
     \<lparr>code = 500, error = Some (''Merge failed: '' @ str_exn e), sent = None,
      files_after = files\<rparr>"

definition pdf_merge_process :: "merge_env \<Rightarrow> fs \<Rightarrow> upload list \<Rightarrow> file_response" where
  "pdf_merge_process m files uploads =
     (if uploads = [] \<or> length uploads < 2
      then \<lparr>code = 400, error = Some ''At least 2 PDF files are required'', sent = None,
            files_after = files\<rparr>
      else
        (case save_uploads m uploads [] files of
           (Inl e, files1) \<Rightarrow> merge_failed e files1
         | (Inr input_paths, files1) \<Rightarrow>
             if length input_paths < 2
             then \<lparr>code = 400, error = Some ''At least 2 valid PDF files are required'',
                   sent = None, files_after = files1\<rparr>
             else if \<not> pypdf2_imported m
             then merge_failed
                    (ImportError
                       ''PyPDF2 is required for PDF operations. Install with: pip install PyPDF2'')
                    files1
             else
               (case merge_pdfs (merger_lib m) (make_temp m) files1 input_paths None of
                  (Inl e, files2) \<Rightarrow> merge_failed e files2
                | (Inr output_path, files2) \<Rightarrow>
                    (case remove_inputs (merger_lib m) input_paths files2 of
                       (Some e, files3) \<Rightarrow> merge_failed e files3
                     | (None, files3) \<Rightarrow>
                         (case send_file m output_path of
                            Some e \<Rightarrow> merge_failed e files3
                          | None \<Rightarrow>
                              \<lparr>code = 200, error = None, sent = Some output_path,
                               files_after = files3\<rparr>)))))"

section \<open>tools/pdf\_toolkit.py: page ranges\<close>

text \<open>\<open>s.split(sep)\<close> for a one-character separator: the empty string gives one empty part.\<close>

fun split_on :: "char \<Rightarrow> string \<Rightarrow> string list" where
  "split_on sep [] = [[]]"
| "split_on sep (c # cs) =
     (if c = sep then [] # split_on sep cs
      else (case split_on sep cs of
              [] \<Rightarrow> [[c]]
            | w # ws \<Rightarrow> (c # w) # ws))"

definition clamp_page :: "int \<Rightarrow> int \<Rightarrow> int" where
  "clamp_page n total_pages = max 1 (min n total_pages)"

text \<open>One comma-separated part, already stripped.\<close>

definition parse_part :: "string \<Rightarrow> int \<Rightarrow> exn + int \<times> int" where
  "parse_part part total_pages =
     (if CHR ''-'' \<in> set part then
        (case split_on CHR ''-'' part of
           [a, b] \<Rightarrow>
             (case py_int a of
                None \<Rightarrow> Inl (ValueError ''invalid literal for int() with base 10'')
              | Some start0 \<Rightarrow>
                  (case py_int b of
                     None \<Rightarrow> Inl (ValueError ''invalid literal for int() with base 10'')
                   | Some end0 \<Rightarrow>
                       let start = max 1 (min start0 total_pages);
                           endp = max start (min end0 total_pages)
                       in Inr (start, endp)))
         | _ \<Rightarrow> Inl (ValueError ''wrong number of values to unpack''))
      else
        (case py_int part of
           None \<Rightarrow> Inl (ValueError ''invalid literal for int() with base 10'')
         | Some page_num0 \<Rightarrow>
             let page_num = max 1 (min page_num0 total_pages)
             in Inr (page_num, page_num)))"

fun parse_parts :: "string list \<Rightarrow> int \<Rightarrow> (int \<times> int) list \<Rightarrow> exn + (int \<times> int) list" where
  "parse_parts [] total_pages ranges = Inr ranges"
| "parse_parts (part # parts) total_pages ranges =
     (case parse_part (py_strip part) total_pages of
        Inl e \<Rightarrow> Inl e
      | Inr r \<Rightarrow> parse_parts parts total_pages (ranges @ [r]))"

definition parse_page_ranges :: "string \<Rightarrow> int \<Rightarrow> exn + (int \<times> int) list" where
  "parse_page_ranges pages total_pages = parse_parts (split_on CHR '','' pages) total_pages []"

section \<open>tools/pdf\_toolkit.py: the toolkit object and its newer methods\<close>

text \<open>The module-level flags set by the guarded imports.\<close>

record modules =
  PYMUPDF_AVAILABLE :: bool
  PYPDF2_AVAILABLE :: bool
  PYPDF_AVAILABLE :: bool
  DOCX_AVAILABLE :: bool
  OPENPYXL_AVAILABLE :: bool
  PPTX_AVAILABLE :: bool
  REPORTLAB_AVAILABLE :: bool

text \<open>
  An instance is its attribute dictionary; the class defines no attribute besides its
  methods. The values an attribute can hold here: the feature table, or a logger.
\<close>

datatype attr = Features "(string \<times> bool) list" | Logger

type_synonym toolkit = "string \<Rightarrow> attr option"

definition PDFToolkit_init :: "modules \<Rightarrow> exn + toolkit" where
  "PDFToolkit_init m =
     (let self = Map.empty(''available_features'' \<mapsto> Features
            [(''pymupdf'', PYMUPDF_AVAILABLE m), (''pypdf2'', PYPDF2_AVAILABLE m),
             (''pypdf'', PYPDF_AVAILABLE m), (''docx'', DOCX_AVAILABLE m),
             (''excel'', OPENPYXL_AVAILABLE m), (''powerpoint'', PPTX_AVAILABLE m),
             (''reportlab'', REPORTLAB_AVAILABLE m)])
      in if \<not> (PYMUPDF_AVAILABLE m \<or> PYPDF2_AVAILABLE m \<or> PYPDF_AVAILABLE m)
         then Inl (ImportError
                ''No PDF processing library available. Install PyMuPDF, PyPDF2, or pypdf.'')
         else Inr self)"

definition quoted :: "string \<Rightarrow> string" where
  "quoted s = [CHR 0x27] @ s @ [CHR 0x27]"

definition getattr :: "toolkit \<Rightarrow> string \<Rightarrow> exn + attr" where
  "getattr self name =
     (case self name of
        None \<Rightarrow>
          Inl (AttributeError
                 (quoted ''PDFToolkit'' @ '' object has no attribute '' @ quoted name))
      | Some v \<Rightarrow> Inr v)"

text \<open>\<open>self.logger.error(...)\<close>: the exception it raises, if any.\<close>

definition logger_error :: "toolkit \<Rightarrow> exn option" where
  "logger_error self =
     (case getattr self ''logger'' of
        Inl e \<Rightarrow> Some e
      | Inr Logger \<Rightarrow> None
      | Inr (Features fs) \<Rightarrow>
          Some (AttributeError
                  (quoted ''dict'' @ '' object has no attribute '' @ quoted ''error'')))"

text \<open>
  The handler shared by the seven methods: \<open>except Exception as e:\<close> logs through
  \<open>self.logger\<close>, then raises \<open>Exception(prefix + str(e))\<close>.
\<close>

definition handled :: "toolkit \<Rightarrow> string \<Rightarrow> exn + string \<Rightarrow> exn + string" where
  "handled self wrap body =
     (case body of
        Inr output_path \<Rightarrow> Inr output_path
      | Inl e \<Rightarrow>
          (case logger_error self of
             Some a \<Rightarrow> Inl a
           | None \<Rightarrow> Inl (Exception (wrap @ str_exn e))))"

text \<open>
  The library part of a method body (\<open>mkstemp\<close> and the PyMuPDF calls) either raises or
  ends with the output path.
\<close>

definition organize_pdf :: "modules \<Rightarrow> toolkit \<Rightarrow> exn + string \<Rightarrow> exn + string" where
  "organize_pdf m self library =
     handled self ''Failed to organize PDF: ''
       (if \<not> PYMUPDF_AVAILABLE m then Inl (Exception ''PyMuPDF is required for PDF organization'')
        else library)"

text \<open>
  A document as \<open>unlock_pdf\<close> sees it: opening may fail, a password is accepted or not,
  the document needs one or not, saving may fail.
\<close>

record locked_doc =
  opens :: "exn option"
  accepts :: "string \<Rightarrow> bool"
  needs_pass :: bool
  saves :: "exn option"

definition unlock_body ::
  "modules \<Rightarrow> exn + string \<Rightarrow> locked_doc \<Rightarrow> string option \<Rightarrow> exn + string" where
  "unlock_body m mkstemp doc password =
     (case mkstemp of
        Inl e \<Rightarrow> Inl e
      | Inr output_path \<Rightarrow>
          let given = (case password of None \<Rightarrow> False | Some pw \<Rightarrow> pw \<noteq> []);
              pw = (case password of None \<Rightarrow> [] | Some pw \<Rightarrow> pw);
              finish = (case saves doc of Some e \<Rightarrow> Inl e | None \<Rightarrow> Inr output_path)
          in
          if PYMUPDF_AVAILABLE m then
            (case opens doc of
               Some e \<Rightarrow> Inl e
             | None \<Rightarrow>
                 if given then
                   (if \<not> accepts doc pw then Inl (Exception ''Incorrect password provided'')
                    else finish)
                 else if needs_pass doc
                 then Inl (Exception ''PDF requires password for unlocking'')
                 else finish)
          else if PYPDF2_AVAILABLE m then
            (case opens doc of
               Some e \<Rightarrow> Inl e
             | None \<Rightarrow>
                 if needs_pass doc then
                   (if given then
                      (if \<not> accepts doc pw then Inl (Exception ''Incorrect password provided'')
                       else finish)
                    else Inl (Exception ''PDF requires password for unlocking''))
                 else finish)
          else Inl (Exception ''PDF processing library not available''))"

definition unlock_pdf ::
  "modules \<Rightarrow> toolkit \<Rightarrow> exn + string \<Rightarrow> locked_doc \<Rightarrow> string option \<Rightarrow> exn + string" where
  "unlock_pdf m self mkstemp doc password =
     handled self ''Failed to unlock PDF: '' (unlock_body m mkstemp doc password)"

text \<open>
  The other five methods create the output path, then need PyMuPDF: with it the library
  part runs, without it the body raises.
\<close>

definition needs_pymupdf ::
  "modules \<Rightarrow> exn + string \<Rightarrow> (string \<Rightarrow> exn option) \<Rightarrow> string \<Rightarrow> exn + string" where
  "needs_pymupdf m mkstemp library missing =
     (case mkstemp of
        Inl e \<Rightarrow> Inl e
      | Inr output_path \<Rightarrow>
          if PYMUPDF_AVAILABLE m then
            (case library output_path of Some e \<Rightarrow> Inl e | None \<Rightarrow> Inr output_path)
          else Inl (Exception missing))"

definition ocr_pdf ::
  "modules \<Rightarrow> toolkit \<Rightarrow> exn + string \<Rightarrow> (string \<Rightarrow> exn option) \<Rightarrow> exn + string" where
  "ocr_pdf m self mkstemp library =
     handled self ''Failed to perform OCR on PDF: ''
       (needs_pymupdf m mkstemp library ''PyMuPDF required for OCR processing'')"

definition compare_pdfs ::
  "modules \<Rightarrow> toolkit \<Rightarrow> exn + string \<Rightarrow> (string \<Rightarrow> exn option) \<Rightarrow> exn + string" where
  "compare_pdfs m self mkstemp library =
     handled self ''Failed to compare PDFs: ''
       (needs_pymupdf m mkstemp library ''PyMuPDF required for PDF comparison'')"

definition redact_pdf ::
  "modules \<Rightarrow> toolkit \<Rightarrow> exn + string \<Rightarrow> (string \<Rightarrow> exn option) \<Rightarrow> exn + string" where
  "redact_pdf m self mkstemp library =
     handled self ''Failed to redact PDF: ''
       (needs_pymupdf m mkstemp library ''PyMuPDF required for PDF redaction'')"

definition edit_pdf_text ::
  "modules \<Rightarrow> toolkit \<Rightarrow> exn + string \<Rightarrow> (string \<Rightarrow> exn option) \<Rightarrow> exn + string" where
  "edit_pdf_text m self mkstemp library =
     handled self ''Failed to edit PDF text: ''
       (needs_pymupdf m mkstemp library ''PyMuPDF required for PDF text editing'')"

definition sign_pdf ::
  "modules \<Rightarrow> toolkit \<Rightarrow> exn + string \<Rightarrow> (string \<Rightarrow> exn option) \<Rightarrow> exn + string" where
  "sign_pdf m self mkstemp library =
     handled self ''Failed to sign PDF: ''
       (needs_pymupdf m mkstemp library ''PyMuPDF required for PDF signing'')"

definition no_logger :: exn where
  "no_logger =
     AttributeError
       (quoted ''PDFToolkit'' @ '' object has no attribute '' @ quoted ''logger'')"

section \<open>Python floats\<close>

text \<open>
  A finite float is the rational number it denotes. An arithmetic operation computes the
  exact result and rounds it to the nearest double (53 significant bits, exponents from
  -1022, ties to the even significand). Where the rounded result leaves the double range
  Python gives \<open>inf\<close>, or raises \<open>OverflowError\<close> at once (conversion of an integer, true
  division of integers). Every float computed by the functions below ends in \<open>int()\<close>
  or in a comparison that decides what \<open>int()\<close> is applied to, and \<open>int()\<close> raises on
  \<open>inf\<close> and \<open>nan\<close>: so the model raises at the operation that overflows.
\<close>

text \<open>The exponent \<open>e\<close> with \<open>2 ^ e \<le> x < 2 ^ (e + 1)\<close>, for positive \<open>x\<close>.\<close>

definition ilog2 :: "rat \<Rightarrow> int" where
  "ilog2 x =
     (let (a, b) = quotient_of x;
          e = bitlen a - bitlen b
      in if 2 powi e \<le> x then e else e - 1)"

definition round_half_even :: "rat \<Rightarrow> int" where
  "round_half_even q =
     (let f = \<lfloor>q\<rfloor>; d = q - of_int f
      in if d < 1 / 2 then f else if 1 / 2 < d then f + 1 else if even f then f else f + 1)"

definition fl_exp :: "rat \<Rightarrow> int" where
  "fl_exp x = (if x = 0 then - 1022 else max (ilog2 \<bar>x\<bar>) (- 1022))"

definition ulp :: "rat \<Rightarrow> rat" where
  "ulp x = 2 powi (fl_exp x - 52)"

definition nearest :: "rat \<Rightarrow> rat" where
  "nearest x = of_int (round_half_even (x / ulp x)) * ulp x"

definition fl :: "rat \<Rightarrow> exn + rat" where
  "fl x = (let r = nearest x
           in if r \<noteq> 0 \<and> 1024 \<le> ilog2 \<bar>r\<bar>
              then Inl (OverflowError ''result too large for a float'') else Inr r)"

definition and_then :: "exn + 'a \<Rightarrow> ('a \<Rightarrow> exn + 'b) \<Rightarrow> exn + 'b" where
  "and_then m k = (case m of Inl e \<Rightarrow> Inl e | Inr v \<Rightarrow> k v)"

definition float_of_int :: "int \<Rightarrow> exn + rat" where
  "float_of_int i = fl (of_int i)"

text \<open>\<open>a / b\<close> for two integers: the exact quotient, rounded once.\<close>

definition int_truediv :: "int \<Rightarrow> int \<Rightarrow> exn + rat" where
  "int_truediv a b =
     (if b = 0 then Inl (ZeroDivisionError ''division by zero'')
      else fl (of_int a / of_int b))"

definition float_add :: "rat \<Rightarrow> rat \<Rightarrow> exn + rat" where
  "float_add x y = fl (x + y)"

definition float_mul :: "rat \<Rightarrow> rat \<Rightarrow> exn + rat" where
  "float_mul x y = fl (x * y)"

definition float_div :: "rat \<Rightarrow> rat \<Rightarrow> exn + rat" where
  "float_div x y =
     (if y = 0 then Inl (ZeroDivisionError ''float division by zero'') else fl (x / y))"

text \<open>\<open>i * f\<close> and \<open>i / f\<close> for an integer and a float: the integer is converted first.\<close>

definition int_times_float :: "int \<Rightarrow> rat \<Rightarrow> exn + rat" where
  "int_times_float i f = and_then (float_of_int i) (\<lambda>x. float_mul x f)"

definition int_div_float :: "int \<Rightarrow> rat \<Rightarrow> exn + rat" where
  "int_div_float i f = and_then (float_of_int i) (\<lambda>x. float_div x f)"

text \<open>\<open>int(x)\<close> for a finite float: truncation towards zero.\<close>

definition py_trunc :: "rat \<Rightarrow> int" where
  "py_trunc x = (if 0 \<le> x then \<lfloor>x\<rfloor> else \<lceil>x\<rceil>)"

text \<open>A float as a library hands it over: finite, infinite or not a number.\<close>

datatype pyfloat = Finite rat | PosInf | NegInf | NaN

fun int_of_float :: "pyfloat \<Rightarrow> exn + int" where
  "int_of_float (Finite x) = Inr (py_trunc x)"
| "int_of_float PosInf = Inl (OverflowError ''cannot convert float infinity to integer'')"
| "int_of_float NegInf = Inl (OverflowError ''cannot convert float infinity to integer'')"
| "int_of_float NaN = Inl (ValueError ''cannot convert float NaN to integer'')"

section \<open>services/seo\_analyzer.py: scores\<close>

text \<open>
  \<open>_calculate_readability(text)\<close>. The first argument is \<open>textstat.flesch_reading_ease\<close>:
  for a text it raises or returns a float. The bare \<open>except\<close> also catches what \<open>int()\<close>
  raises.
\<close>

definition calculate_readability :: "(string \<Rightarrow> exn + pyfloat) \<Rightarrow> string \<Rightarrow> int" where
  "calculate_readability flesch_reading_ease text =
     (case flesch_reading_ease text of
        Inl e \<Rightarrow> 50
      | Inr score \<Rightarrow>
          (case int_of_float score of
             Inl e \<Rightarrow> 50
           | Inr i \<Rightarrow> max 0 (min 100 i)))"

text \<open>
  The heading dictionary, as far as the scores read it: the number of \<open>h1\<close> ... \<open>h6\<close>
  tags, by level.
\<close>

type_synonym headings = "nat \<Rightarrow> nat"

definition calculate_heading_hierarchy_score :: "headings \<Rightarrow> int" where
  "calculate_heading_hierarchy_score h =
     (let score = (if h 1 = 0 then 100 - 30 else if h 1 > 1 then 100 - 15 else 100);
          score' = fold (\<lambda>i sc. if h i > 0 \<and> h (i - 1) = 0 then sc - 10 else sc) [2..<7] score
      in max 0 score')"

record heading_analysis =
  h1_status :: string
  hierarchy_score :: int

definition analyze_headings :: "headings \<Rightarrow> heading_analysis" where
  "analyze_headings h =
     \<lparr>h1_status = (if h 1 = 0 then ''critical'' else if h 1 > 1 then ''warning'' else ''good''),
      hierarchy_score = calculate_heading_hierarchy_score h\<rparr>"

record scores =
  overall :: int
  technical :: int
  content :: int
  performance :: int

text \<open>The float literals \<open>0.4\<close> and \<open>0.3\<close>.\<close>

definition lit_0_4 :: rat where
  "lit_0_4 = nearest (4 / 10)"

definition lit_0_3 :: rat where
  "lit_0_3 = nearest (3 / 10)"

text \<open>
  \<open>_calculate_scores\<close>, with the fields it reads as arguments: the title status, the meta
  description status, the heading analysis, the content status and the speed status
  (the image and link analyses are passed and never read).
\<close>

definition calculate_scores ::
  "string \<Rightarrow> string \<Rightarrow> heading_analysis \<Rightarrow> string \<Rightarrow> string \<Rightarrow> exn + scores" where
  "calculate_scores title_status meta_status heading content_status speed_status =
     (let technical_score = (100::int);
          technical_score = (if title_status = ''critical'' then technical_score - 20
                             else if title_status = ''warning'' then technical_score - 10
                             else technical_score);
          technical_score = (if meta_status = ''critical'' then technical_score - 20
                             else if meta_status = ''warning'' then technical_score - 10
                             else technical_score);
          technical_score = (if h1_status heading = ''critical'' then technical_score - 15
                             else if h1_status heading = ''warning'' then technical_score - 8
                             else technical_score);
          content_score = hierarchy_score heading;
          content_score = (if content_status = ''critical'' then content_score - 30
                           else if content_status = ''warning'' then content_score - 15
                           else content_score);
          performance_score = (100::int);
          performance_score = (if speed_status = ''critical'' then performance_score - 40
                               else if speed_status = ''warning'' then performance_score - 20
                               else performance_score)
      in and_then (int_times_float technical_score lit_0_4) (\<lambda>a.
         and_then (int_times_float content_score lit_0_3) (\<lambda>b.
         and_then (float_add a b) (\<lambda>ab.
         and_then (int_times_float performance_score lit_0_3) (\<lambda>c.
         and_then (float_add ab c) (\<lambda>total.
           let overall_score = py_trunc total
           in Inr \<lparr>overall = max 0 overall_score, technical = max 0 technical_score,
                    content = max 0 content_score,
                    performance = max 0 performance_score\<rparr>))))))"

text \<open>
  The overall score written as the formula reads when it is applied to three scores:
  \<open>max(0, int(0.4 * technical + 0.3 * content + 0.3 * performance))\<close>.
\<close>

definition float_times_int :: "rat \<Rightarrow> int \<Rightarrow> exn + rat" where
  "float_times_int f i = and_then (float_of_int i) (\<lambda>x. float_mul f x)"

definition weighted_overall :: "int \<Rightarrow> int \<Rightarrow> int \<Rightarrow> exn + int" where
  "weighted_overall t c p =
     and_then (float_times_int lit_0_4 t) (\<lambda>a.
     and_then (float_times_int lit_0_3 c) (\<lambda>b.
     and_then (float_add a b) (\<lambda>ab.
     and_then (float_times_int lit_0_3 p) (\<lambda>c'.
     and_then (float_add ab c') (\<lambda>total. Inr (max 0 (py_trunc total)))))))"

section \<open>tools/image\_resizer.py\<close>

text \<open>
  The block "calculate new dimensions", which \<open>resize_image\<close> and \<open>get_resize_preview\<close>
  both contain word for word. \<open>None\<close> and zero are falsy. The result is
  \<open>(new_width, new_height)\<close> before the minimum of one pixel is applied.
\<close>

definition given :: "int option \<Rightarrow> bool" where
  "given v = (case v of None \<Rightarrow> False | Some n \<Rightarrow> n \<noteq> 0)"

definition percent_of :: "int \<Rightarrow> rat \<Rightarrow> exn + int" where
  "percent_of extent percentage =
     and_then (int_times_float extent percentage) (\<lambda>x.
     and_then (float_of_int 100) (\<lambda>hundred.
     and_then (float_div x hundred) (\<lambda>y. Inr (py_trunc y))))"

definition new_dimensions ::
  "int \<Rightarrow> int \<Rightarrow> int option \<Rightarrow> int option \<Rightarrow> rat option \<Rightarrow> bool \<Rightarrow> exn + int \<times> int" where
  "new_dimensions orig_width orig_height width height percentage maintain_aspect =
     (if (case percentage of None \<Rightarrow> False | Some p \<Rightarrow> p \<noteq> 0) then
        and_then (percent_of orig_width (the percentage)) (\<lambda>new_width.
        and_then (percent_of orig_height (the percentage)) (\<lambda>new_height.
          Inr (new_width, new_height)))
      else if given width \<and> given height then
        (let w = the width; h = the height in
         if maintain_aspect then
           and_then (int_truediv orig_width orig_height) (\<lambda>aspect_ratio.
           and_then (int_truediv w h) (\<lambda>wanted.
             if wanted > aspect_ratio
             then and_then (int_times_float h aspect_ratio) (\<lambda>x. Inr (py_trunc x, h))
             else and_then (int_div_float w aspect_ratio) (\<lambda>y. Inr (w, py_trunc y))))
         else Inr (w, h))
      else if given width then
        and_then (int_truediv orig_width orig_height) (\<lambda>aspect_ratio.
        and_then (int_div_float (the width) aspect_ratio) (\<lambda>y.
          Inr (the width, py_trunc y)))
      else
        and_then (int_truediv orig_width orig_height) (\<lambda>aspect_ratio.
          case height of
            None \<Rightarrow> Inl (TypeError ''unsupported operand type(s) for *'')
          | Some h \<Rightarrow> and_then (int_times_float h aspect_ratio) (\<lambda>x. Inr (py_trunc x, h))))"

text \<open>
  \<open>get_resize_preview\<close>. Its \<open>except\<close> returns an error dictionary instead of raising:
  that is the \<open>Inl\<close> case. The field \<open>size_change_percentage\<close> (a float rounded to one
  decimal, which never raises) is left out.
\<close>

record preview =
  new_width :: int
  new_height :: int
  is_enlargement :: bool
  aspect_ratio_maintained :: bool

definition get_resize_preview ::
  "int \<Rightarrow> int \<Rightarrow> int option \<Rightarrow> int option \<Rightarrow> rat option \<Rightarrow> bool \<Rightarrow> exn + preview" where
  "get_resize_preview original_width original_height width height percentage maintain_aspect =
     and_then (new_dimensions original_width original_height width height percentage
                 maintain_aspect) (\<lambda>(w, h).
     and_then (int_truediv (w * h) (original_width * original_height)) (\<lambda>size_change.
       Inr \<lparr>new_width = max 1 w, new_height = max 1 h, is_enlargement = (size_change > 1),
            aspect_ratio_maintained = maintain_aspect\<rparr>))"

text \<open>
  \<open>resize_image\<close>. What Pillow and the file system do is given: whether the input path
  exists, what opening the image gives (it raises, or the image has a size and a
  format), and what resizing to a size and saving gives (it raises, or the output path).
\<close>

record image_io =
  path_exists :: bool
  opened :: "exn + int \<times> int"
  resize_and_save :: "int \<times> int \<Rightarrow> exn + string"

record resized =
  saved_as :: string
  resized_to :: "int \<times> int"

definition resize_image ::
  "image_io \<Rightarrow> string \<Rightarrow> int option \<Rightarrow> int option \<Rightarrow> rat option \<Rightarrow> bool \<Rightarrow> int \<Rightarrow> exn + resized" where
  "resize_image io image_path width height percentage maintain_aspect quality =
     (if \<not> path_exists io then Inl (FileNotFoundError (''Image file not found: '' @ image_path))
      else if \<not> (given width \<or> given height
                 \<or> (case percentage of None \<Rightarrow> False | Some p \<Rightarrow> p \<noteq> 0))
      then Inl (ValueError ''Must specify width, height, or percentage'')
      else if (case percentage of None \<Rightarrow> False | Some p \<Rightarrow> p \<noteq> 0 \<and> (p \<le> 0 \<or> p > 500))
      then Inl (ValueError ''Percentage must be between 1 and 500'')
      else if quality < 1 \<or> quality > 100
      then Inl (ValueError ''Quality must be between 1 and 100'')
      else
        (case and_then (opened io) (\<lambda>(orig_width, orig_height).
              and_then (new_dimensions orig_width orig_height width height percentage
                          maintain_aspect) (\<lambda>(w, h).
                let new_size = (max 1 w, max 1 h) in
                and_then (resize_and_save io new_size) (\<lambda>out.
                  Inr \<lparr>saved_as = out, resized_to = new_size\<rparr>))) of
           Inl e \<Rightarrow> Inl (Exception (''Failed to resize image: '' @ str_exn e))
         | Inr r \<Rightarrow> Inr r))"

section \<open>Sample data\<close>

definition day1 :: date where
  "day1 = \<lparr>year = 2024, month = 5, day = 17\<rparr>"

definition noon :: datetime where
  "noon = \<lparr>on_date = day1, seconds = 43200\<rparr>"

definition alice :: user where
  "alice = \<lparr>id = 1, username = ''alice'', email = ''alice@example.org'', role = FREE,
             plan_type = None, is_active = True\<rparr>"

definition paula :: user where
  "paula = \<lparr>id = 2, username = ''paula'', email = ''paula@example.org'', role = PREMIUM,
             plan_type = Some YEARLY, is_active = True\<rparr>"

definition used_by :: "int \<Rightarrow> usage" where
  "used_by uid = \<lparr>user_id = uid, tool_name = ''paraphraser'', used_at = noon,
                   input_data = None, output_data = None\<rparr>"

definition hello_service :: gemini where
  "hello_service = \<lparr>client_ready = True, api_call = (\<lambda>n. ApiText (Some ''hello ''))\<rparr>"

definition world :: env where
  "world = \<lparr>today = day1, utcnow = noon, commit_ok = True, service = hello_service\<rparr>"

definition full_disk :: pdf_lib where
  "full_disk = \<lparr>new_merger = None, append = (\<lambda>p. None), open_output = None,
                 write_output = Some (LibraryError ''disk full''), close_merger = None,
                 os_remove = (\<lambda>p. None)\<rparr>"

definition output_is_directory :: pdf_lib where
  "output_is_directory =
     \<lparr>new_merger = None, append = (\<lambda>p. None),
      open_output = Some (OSError ''[Errno 21] Is a directory''),
      write_output = None, close_merger = None,
      os_remove = (\<lambda>p. if p = ''outdir'' then Some (OSError ''[Errno 21] Is a directory'')
                        else None)\<rparr>"

definition upload_dir :: merge_env where
  "upload_dir = \<lparr>upload_path = (\<lambda>n. ''/tmp/20240517_120000_'' @ n), save = (\<lambda>p. None),
                  pypdf2_imported = True, merger_lib = full_disk,
                  make_temp = Inr ''/tmp/merged_1.pdf'', send_file = (\<lambda>p. None)\<rparr>"

definition only_pypdf2 :: modules where
  "only_pypdf2 = \<lparr>PYMUPDF_AVAILABLE = False, PYPDF2_AVAILABLE = True,
                   PYPDF_AVAILABLE = False, DOCX_AVAILABLE = False,
                   OPENPYXL_AVAILABLE = False, PPTX_AVAILABLE = False,
                   REPORTLAB_AVAILABLE = False\<rparr>"

definition pypdf2_toolkit :: toolkit where
  "pypdf2_toolkit = Map.empty(''available_features'' \<mapsto> Features
       [(''pymupdf'', False), (''pypdf2'', True), (''pypdf'', False), (''docx'', False),
        (''excel'', False), (''powerpoint'', False), (''reportlab'', False)])"

definition photo :: image_io where
  "photo = \<lparr>path_exists = True, opened = Inr (4, 3),
             resize_and_save = (\<lambda>s. Inr ''resized_1.jpeg'')\<rparr>"

section \<open>Freemium gate\<close>

text \<open>
  C1. A premium user may always use a tool, whatever the usage table holds. A free user
  may use a tool exactly when fewer than three usage rows of that user, over all tools,
  are dated today.
\<close>

theorem can_use_tool_freemium:
  "(role u = PREMIUM \<longrightarrow> can_use_tool dt d u tool)
   \<and> (role u = FREE \<longrightarrow>
        (can_use_tool dt d u tool
          \<longleftrightarrow> length (filter (\<lambda>r. user_id r = id u \<and> on_date (used_at r) = dt) d) < 3))"
  by (simp add: can_use_tool_def is_premium_def get_daily_usage_count_def usage_records_def)

theorem can_use_tool_freemium_witness:
  "role paula = PREMIUM
   \<and> can_use_tool day1 [used_by 2, used_by 2, used_by 2, used_by 2] paula ''paraphraser''
   \<and> role alice = FREE
   \<and> can_use_tool day1 [used_by 1, used_by 2, used_by 1] alice ''paraphraser''
   \<and> \<not> can_use_tool day1 [used_by 1, used_by 1, used_by 1] alice ''paraphraser''"
  using can_use_tool_freemium [of paula day1 "[used_by 2, used_by 2, used_by 2, used_by 2]"]
    can_use_tool_freemium [of alice day1 "[used_by 1, used_by 2, used_by 1]"]
    can_use_tool_freemium [of alice day1 "[used_by 1, used_by 1, used_by 1]"]
  by (simp add: alice_def paula_def used_by_def noon_def)

section \<open>The /ai/generate endpoint\<close>

lemma hello_reply: "generate_content hello_service = ''hello''"
  by code_simp

lemma hello_available: "\<not> prefix unavailable_prefix ''hello''"
  by code_simp

text \<open>
  C2, as stated, fails: for a premium user the request succeeds and no usage row is
  written, since \<open>record_usage\<close> only accounts free users.
\<close>

theorem ai_generate_premium_counterexample:
  "status (ai_generate world [] (LoggedIn paula) (Inr (JObj [(''prompt'', JStr ''hi'')]))) = 200
   \<and> payload (ai_generate world [] (LoggedIn paula) (Inr (JObj [(''prompt'', JStr ''hi'')])))
       = Json [(''output'', JStr ''hello'')]
   \<and> db_after (ai_generate world [] (LoggedIn paula) (Inr (JObj [(''prompt'', JStr ''hi'')])))
       = []"
  by (simp add: ai_generate_def respond_def dict_get_def world_def paula_def is_premium_def
      hello_reply hello_available)

text \<open>
  C2, amended. For an authenticated user and a JSON object as body: a missing or falsy
  prompt gives 400; otherwise a free user with three or more usage rows today gets 403;
  otherwise a reply that starts with "AI service is currently unavailable" gives 503; in
  these three cases the usage table is unchanged. Otherwise the reply is returned with
  status 200; then a premium user leaves the table unchanged, and a free user whose
  prompt is a string adds exactly one row when the commit succeeds and none when it
  fails. A body that cannot be read as JSON, or is not an object, gives 500.
\<close>

theorem ai_generate_statuses:
  assumes "r = ai_generate e d (LoggedIn u) (Inr (JObj kvs))"
    and "prompt = dict_get kvs ''prompt''"
    and "used = length (filter (\<lambda>x. user_id x = id u \<and> on_date (used_at x) = today e) d)"
    and "reply = generate_content (service e)"
  shows
    "(\<not> truthy prompt \<longrightarrow> status r = 400 \<and> db_after r = d \<and> ai_calls r = 0)
     \<and> (truthy prompt \<and> role u = FREE \<and> 3 \<le> used \<longrightarrow>
          status r = 403 \<and> db_after r = d \<and> ai_calls r = 0)
     \<and> (truthy prompt \<and> (role u = PREMIUM \<or> used < 3) \<and> prefix unavailable_prefix reply \<longrightarrow>
          status r = 503 \<and> db_after r = d)
     \<and> (truthy prompt \<and> (role u = PREMIUM \<or> used < 3) \<and> \<not> prefix unavailable_prefix reply \<longrightarrow>
          status r = 200 \<and> payload r = Json [(''output'', JStr reply)]
          \<and> (role u = PREMIUM \<longrightarrow> db_after r = d)
          \<and> (role u = FREE \<and> \<not> commit_ok e \<longrightarrow> db_after r = d)
          \<and> (\<forall>p. role u = FREE \<and> commit_ok e \<and> prompt = JStr p \<longrightarrow>
                db_after r = d @ [\<lparr>user_id = id u, tool_name = ''ai_generate'',
                   used_at = utcnow e, input_data = Some (JStr (take 500 p)),
                   output_data = (if reply = [] then None
                                  else Some (JStr (take 1000 reply)))\<rparr>]))
     \<and> (\<forall>err. status (ai_generate e d (LoggedIn u) (Inl err)) = 500)
     \<and> (\<forall>v. (\<forall>obj. v \<noteq> JObj obj) \<longrightarrow> status (ai_generate e d (LoggedIn u) (Inr v)) = 500)"
proof -
  have free: "role u \<noteq> PREMIUM \<longleftrightarrow> role u = FREE"
    by (cases "role u") simp_all
  have count: "get_daily_usage_count (today e) d u None None = used"
    by (simp add: get_daily_usage_count_def usage_records_def assms(3))
  have top: "\<not> truthy prompt \<longrightarrow> status r = 400 \<and> db_after r = d \<and> ai_calls r = 0"
    by (simp add: assms(1,2) ai_generate_def respond_def)
  have limit: "truthy prompt \<and> role u = FREE \<and> 3 \<le> used \<longrightarrow>
      status r = 403 \<and> db_after r = d \<and> ai_calls r = 0"
    by (simp add: assms(1) assms(2)[symmetric] ai_generate_def respond_def is_premium_def count)
  have ok: "truthy prompt \<and> (role u = PREMIUM \<or> used < 3) \<longrightarrow>
      allowed (check_usage_limit e d (LoggedIn u) ''ai_generate'')"
    by (simp add: is_premium_def count)
  have down: "truthy prompt \<and> (role u = PREMIUM \<or> used < 3) \<and> prefix unavailable_prefix reply
      \<longrightarrow> status r = 503 \<and> db_after r = d"
    using ok
    by (simp add: assms(1) assms(2)[symmetric] assms(4)[symmetric] ai_generate_def respond_def
        Let_def)
  have served: "truthy prompt \<and> (role u = PREMIUM \<or> used < 3) \<and> \<not> prefix unavailable_prefix reply
      \<longrightarrow> status r = 200 \<and> payload r = Json [(''output'', JStr reply)]
        \<and> db_after r = record_usage e d (LoggedIn u) ''ai_generate'' prompt (JStr reply)"
    using ok
    by (simp add: assms(1) assms(2)[symmetric] assms(4)[symmetric] ai_generate_def respond_def
        Let_def)
  have rec_premium: "role u = PREMIUM \<longrightarrow>
      record_usage e d (LoggedIn u) ''ai_generate'' prompt (JStr reply) = d"
    by (simp add: is_premium_def)
  have rec_failed: "role u = FREE \<and> \<not> commit_ok e \<longrightarrow>
      record_usage e d (LoggedIn u) ''ai_generate'' prompt (JStr reply) = d"
    by (simp add: is_premium_def split: sum.splits)
  have rec_free: "\<forall>p. role u = FREE \<and> commit_ok e \<and> prompt = JStr p \<and> truthy prompt \<longrightarrow>
      record_usage e d (LoggedIn u) ''ai_generate'' prompt (JStr reply)
        = d @ [\<lparr>user_id = id u, tool_name = ''ai_generate'',
                   used_at = utcnow e, input_data = Some (JStr (take 500 p)),
                   output_data = (if reply = [] then None
                                  else Some (JStr (take 1000 reply)))\<rparr>]"
    by (simp add: is_premium_def)
  have bad: "\<forall>err. status (ai_generate e d (LoggedIn u) (Inl err)) = 500"
    by (simp add: ai_generate_def respond_def)
  have other: "\<forall>v. (\<forall>obj. v \<noteq> JObj obj) \<longrightarrow> status (ai_generate e d (LoggedIn u) (Inr v)) = 500"
  proof (intro allI impI)
    fix v assume "\<forall>obj. v \<noteq> JObj obj"
    then show "status (ai_generate e d (LoggedIn u) (Inr v)) = 500"
      by (cases v) (simp_all add: ai_generate_def respond_def)
  qed
  show ?thesis
    using top limit down served rec_premium rec_failed rec_free bad other by metis
qed

theorem ai_generate_statuses_witness:
  "truthy (dict_get [(''prompt'', JStr ''hi'')] ''prompt'')
   \<and> role alice = FREE
   \<and> commit_ok world
   \<and> \<not> prefix unavailable_prefix (generate_content (service world))
   \<and> status (ai_generate world [used_by 1] (LoggedIn alice)
         (Inr (JObj [(''prompt'', JStr ''hi'')]))) = 200
   \<and> db_after (ai_generate world [used_by 1] (LoggedIn alice)
         (Inr (JObj [(''prompt'', JStr ''hi'')])))
       = [used_by 1,
          \<lparr>user_id = 1, tool_name = ''ai_generate'', used_at = noon,
           input_data = Some (JStr ''hi''), output_data = Some (JStr ''hello'')\<rparr>]"
  using ai_generate_statuses [OF refl refl refl refl,
      where e = world and d = "[used_by 1]" and u = alice
        and kvs = "[(''prompt'', JStr ''hi'')]"]
  by (simp add: dict_get_def world_def alice_def used_by_def noon_def hello_reply
      hello_available)

section \<open>AI tools need an account\<close>

lemma ai_generate_anonymous:
  "ai_calls (ai_generate e d AnonymousUser req) = 0
   \<and> db_after (ai_generate e d AnonymousUser req) = d"
proof (cases req)
  case (Inl err)
  then show ?thesis by (simp add: ai_generate_def respond_def)
next
  case (Inr v)
  then show ?thesis
    by (cases v) (simp_all add: ai_generate_def respond_def Let_def)
qed

lemma ai_tool_anonymous:
  "ai_calls (ai_tool t e d AnonymousUser m f) = 0
   \<and> db_after (ai_tool t e d AnonymousUser m f) = d"
  by (cases m) (simp_all add: ai_tool_def respond_def)

text \<open>
  C5. Without an authenticated user \<open>check_usage_limit\<close> answers "not allowed" with the
  message "Please login to use AI tools" and a redirect to the login view, whatever the
  tool; \<open>record_usage\<close> writes nothing; and neither \<open>ai_generate\<close> nor any of the ten form
  tools, with or without the \<open>login_required\<close> wrapper, calls the AI service or changes
  the usage table.
\<close>

theorem anonymous_gets_no_ai:
  "check_usage_limit e d AnonymousUser name
     = \<lparr>allowed = False, message = ''Please login to use AI tools'',
        redirect = Some ''auth.login''\<rparr>
   \<and> record_usage e d AnonymousUser name inp outp = d
   \<and> ai_calls (ai_generate e d AnonymousUser req) = 0
   \<and> db_after (ai_generate e d AnonymousUser req) = d
   \<and> ai_calls (ai_generate_route e d AnonymousUser req) = 0
   \<and> db_after (ai_generate_route e d AnonymousUser req) = d
   \<and> ai_calls (ai_tool t e d AnonymousUser m f) = 0
   \<and> db_after (ai_tool t e d AnonymousUser m f) = d
   \<and> ai_calls (ai_tool_route t e d AnonymousUser m f) = 0
   \<and> db_after (ai_tool_route t e d AnonymousUser m f) = d"
  using ai_generate_anonymous [of e d req] ai_tool_anonymous [of t e d m f]
  by (simp add: ai_generate_route_def ai_tool_route_def login_required_def respond_def)

theorem anonymous_gets_no_ai_witness:
  "allowed (check_usage_limit world [] AnonymousUser ''blog_generator'') = False
   \<and> ai_calls (ai_generate world [] AnonymousUser (Inr (JObj [(''prompt'', JStr ''hi'')]))) = 0
   \<and> db_after (ai_tool BlogGenerator world [] AnonymousUser POST
        (\<lambda>k. if k = ''topic'' then Some ''tea'' else None)) = []"
  using anonymous_gets_no_ai [where e = world and d = "[]" and name = "''blog_generator''"
      and req = "Inr (JObj [(''prompt'', JStr ''hi'')])" and t = BlogGenerator and m = POST
      and f = "\<lambda>k. if k = ''topic'' then Some ''tea'' else None"]
  by simp

section \<open>Merging PDFs: validation\<close>

lemma find_missing:
  assumes "\<not> set ps \<subseteq> files"
  shows "\<exists>p \<in> set ps. p \<notin> files \<and> find (\<lambda>p. p \<notin> files) ps = Some p"
  using assms
proof (induction ps)
  case Nil
  then show ?case by simp
next
  case (Cons a ps)
  then show ?case by (cases "a \<in> files") auto
qed

lemma find_present: "set ps \<subseteq> files \<Longrightarrow> find (\<lambda>p. p \<notin> files) ps = None"
  by (induction ps) auto

text \<open>
  C4. With fewer than two paths (the empty list included) \<open>merge_pdfs\<close> raises
  \<open>ValueError\<close> and leaves the file system as it was. With two or more paths of which one
  does not exist it raises \<open>FileNotFoundError\<close> for such a path, again leaving the file
  system untouched. The merge route answers 400 when fewer than two files are uploaded.
\<close>

theorem merge_needs_two_existing_files:
  "(length pdf_paths < 2 \<longrightarrow>
      merge_pdfs lib mkstemp files pdf_paths output_filename
        = (Inl (ValueError ''At least 2 PDF files are required for merging''), files))
   \<and> (2 \<le> length pdf_paths \<and> \<not> set pdf_paths \<subseteq> files \<longrightarrow>
        (\<exists>p \<in> set pdf_paths. p \<notin> files
           \<and> merge_pdfs lib mkstemp files pdf_paths output_filename
               = (Inl (FileNotFoundError (''PDF file not found: '' @ p)), files)))
   \<and> (length uploads < 2 \<longrightarrow>
        code (pdf_merge_process m files uploads) = 400
        \<and> sent (pdf_merge_process m files uploads) = None
        \<and> files_after (pdf_merge_process m files uploads) = files)"
proof (intro conjI impI)
  assume "length pdf_paths < 2"
  then show "merge_pdfs lib mkstemp files pdf_paths output_filename
        = (Inl (ValueError ''At least 2 PDF files are required for merging''), files)"
    by (simp add: merge_pdfs_def)
next
  assume a: "2 \<le> length pdf_paths \<and> \<not> set pdf_paths \<subseteq> files"
  then have "\<not> set pdf_paths \<subseteq> files" by simp
  from find_missing [OF this]
  obtain p where p: "p \<in> set pdf_paths" "p \<notin> files"
      "find (\<lambda>p. p \<notin> files) pdf_paths = Some p"
    by blast
  have "pdf_paths \<noteq> []" "\<not> length pdf_paths < 2" using a by auto
  then have "merge_pdfs lib mkstemp files pdf_paths output_filename
      = (Inl (FileNotFoundError (''PDF file not found: '' @ p)), files)"
    using p(3) by (simp add: merge_pdfs_def)
  with p show "\<exists>p \<in> set pdf_paths. p \<notin> files
           \<and> merge_pdfs lib mkstemp files pdf_paths output_filename
               = (Inl (FileNotFoundError (''PDF file not found: '' @ p)), files)"
    by blast
next
  assume "length uploads < 2"
  then show "code (pdf_merge_process m files uploads) = 400"
    by (simp add: pdf_merge_process_def)
next
  assume "length uploads < 2"
  then show "sent (pdf_merge_process m files uploads) = None"
    by (simp add: pdf_merge_process_def)
next
  assume "length uploads < 2"
  then show "files_after (pdf_merge_process m files uploads) = files"
    by (simp add: pdf_merge_process_def)
qed

theorem merge_needs_two_existing_files_witness:
  "length [''a.pdf''] < 2
   \<and> merge_pdfs full_disk (Inr ''merged_1.pdf'') {''a.pdf''} [''a.pdf''] None
       = (Inl (ValueError ''At least 2 PDF files are required for merging''), {''a.pdf''})
   \<and> 2 \<le> length [''a.pdf'', ''b.pdf'']
   \<and> \<not> set [''a.pdf'', ''b.pdf''] \<subseteq> {''a.pdf''}
   \<and> merge_pdfs full_disk (Inr ''merged_1.pdf'') {''a.pdf''} [''a.pdf'', ''b.pdf''] None
       = (Inl (FileNotFoundError ''PDF file not found: b.pdf''), {''a.pdf''})
   \<and> code (pdf_merge_process upload_dir {} [\<lparr>filename = ''a.pdf''\<rparr>]) = 400"
  using merge_needs_two_existing_files [where pdf_paths = "[''a.pdf'']" and lib = full_disk
      and mkstemp = "Inr ''merged_1.pdf''" and files = "{''a.pdf''}" and output_filename = None
      and uploads = "[]"]
    merge_needs_two_existing_files [where pdf_paths = "[''a.pdf'', ''b.pdf'']"
      and lib = full_disk and mkstemp = "Inr ''merged_1.pdf''" and files = "{''a.pdf''}"
      and output_filename = None and uploads = "[]"]
    merge_needs_two_existing_files [where pdf_paths = "[]" and files = "{}"
      and uploads = "[\<lparr>filename = ''a.pdf''\<rparr>]" and m = upload_dir]
  by simp

section \<open>Merging PDFs: no output left behind\<close>

text \<open>
  C6, as stated, fails where \<open>os.remove\<close> raises in the handler. With an existing
  directory given as output name, opening it for writing fails, the handler finds the
  path, \<open>os.remove\<close> raises, and its error leaves \<open>merge_pdfs\<close> unwrapped while the path
  is still there.
\<close>

theorem merge_failure_keeps_directory_counterexample:
  "merge_pdfs output_is_directory (Inr ''merged_1.pdf'') {''a.pdf'', ''b.pdf'', ''outdir''}
       [''a.pdf'', ''b.pdf''] (Some ''outdir'')
     = (Inl (OSError ''[Errno 21] Is a directory''), {''a.pdf'', ''b.pdf'', ''outdir''})
   \<and> ''outdir'' \<in> {''a.pdf'', ''b.pdf'', ''outdir''}
   \<and> \<not> prefix ''Failed to merge PDFs:'' (str_exn (OSError ''[Errno 21] Is a directory''))"
  by (simp add: merge_pdfs_def merge_steps_def output_is_directory_def)

text \<open>
  C6, amended. Once the inputs are validated and the output path is determined (a fresh
  temporary file, or the name given), and provided \<open>os.remove\<close> does not raise on the
  output path, every failing call of \<open>merge_pdfs\<close> raises the wrapped exception
  "Failed to merge PDFs: ..." and the output path does not exist afterwards.
\<close>

theorem merge_failure_removes_output:
  assumes "2 \<le> length pdf_paths"
    and "set pdf_paths \<subseteq> files"
    and "(case output_filename of None \<Rightarrow> mkstemp | Some n \<Rightarrow> Inr n) = Inr output_path"
    and "os_remove lib output_path = None"
    and "merge_pdfs lib mkstemp files pdf_paths output_filename = (Inl err, files')"
  shows "output_path \<notin> files'
    \<and> (\<exists>e. err = Exception (''Failed to merge PDFs: '' @ str_exn e))
    \<and> prefix ''Failed to merge PDFs:'' (str_exn err)"
proof -
  have ne: "pdf_paths \<noteq> []" "\<not> length pdf_paths < 2" using assms(1) by auto
  have none: "find (\<lambda>p. p \<notin> files) pdf_paths = None"
    using assms(2) by (rule find_present)
  define files1 where
    "files1 = (if output_filename = None then insert output_path files else files)"
  obtain r files2 where ms: "merge_steps lib pdf_paths output_path files1 = (r, files2)"
    by (cases "merge_steps lib pdf_paths output_path files1")
  have unfolded: "merge_pdfs lib mkstemp files pdf_paths output_filename
      = (case r of None \<Rightarrow> (Inr output_path, files2)
         | Some e \<Rightarrow> (Inl (Exception (''Failed to merge PDFs: '' @ str_exn e)),
                        files2 - {output_path}))"
  proof (cases "output_path \<in> files2")
    case True
    then show ?thesis
      using ne none assms(3,4) ms
      by (simp add: merge_pdfs_def files1_def Let_def split: option.splits)
  next
    case False
    then have "files2 - {output_path} = files2" by simp
    with False show ?thesis
      using ne none assms(3) ms
      by (simp add: merge_pdfs_def files1_def Let_def split: option.splits)
  qed
  show ?thesis
  proof (cases r)
    case None
    then show ?thesis using unfolded assms(5) by simp
  next
    case (Some e)
    then have "err = Exception (''Failed to merge PDFs: '' @ str_exn e)"
      and "files' = files2 - {output_path}"
      using unfolded assms(5) by simp_all
    then show ?thesis by auto
  qed
qed

theorem merge_failure_removes_output_witness:
  "2 \<le> length [''a.pdf'', ''b.pdf'']
   \<and> set [''a.pdf'', ''b.pdf''] \<subseteq> {''a.pdf'', ''b.pdf''}
   \<and> os_remove full_disk ''merged_1.pdf'' = None
   \<and> merge_pdfs full_disk (Inr ''merged_1.pdf'') {''a.pdf'', ''b.pdf''}
         [''a.pdf'', ''b.pdf''] None
       = (Inl (Exception ''Failed to merge PDFs: disk full''), {''a.pdf'', ''b.pdf''})
   \<and> ''merged_1.pdf'' \<notin> {''a.pdf'', ''b.pdf''}"
proof -
  have run: "merge_pdfs full_disk (Inr ''merged_1.pdf'') {''a.pdf'', ''b.pdf''}
         [''a.pdf'', ''b.pdf''] None
       = (Inl (Exception ''Failed to merge PDFs: disk full''), {''a.pdf'', ''b.pdf''})"
    by (simp add: merge_pdfs_def merge_steps_def full_disk_def)
  have two: "2 \<le> length [''a.pdf'', ''b.pdf'']" by simp
  have there: "set [''a.pdf'', ''b.pdf''] \<subseteq> {''a.pdf'', ''b.pdf''}" by simp
  have path: "(case None of None \<Rightarrow> Inr ''merged_1.pdf'' | Some n \<Rightarrow> Inr n)
      = (Inr ''merged_1.pdf'' :: exn + string)" by simp
  have removable: "os_remove full_disk ''merged_1.pdf'' = None" by (simp add: full_disk_def)
  from merge_failure_removes_output [OF two there path removable run] run removable
  show ?thesis by simp
qed

section \<open>Page ranges stay inside the document\<close>

lemma parse_part_bounds:
  assumes "1 \<le> total_pages" and "parse_part part total_pages = Inr (s, e)"
  shows "1 \<le> s \<and> s \<le> e \<and> e \<le> total_pages"
proof (cases "CHR ''-'' \<in> set part")
  case True
  with assms(2) obtain a b where ab: "split_on CHR ''-'' part = [a, b]"
    by (auto simp: parse_part_def split: list.splits)
  with True assms(2) obtain s0 e0 where
    "s = max 1 (min s0 total_pages)" "e = max s (min e0 total_pages)"
    by (auto simp: parse_part_def Let_def split: option.splits)
  with assms(1) show ?thesis by auto
next
  case False
  with assms(2) obtain n where "s = max 1 (min n total_pages)" "e = s"
    by (auto simp: parse_part_def Let_def split: option.splits)
  with assms(1) show ?thesis by auto
qed

lemma parse_parts_bounds:
  assumes "1 \<le> total_pages"
    and "parse_parts parts total_pages acc = Inr ranges"
    and "\<forall>(s, e) \<in> set acc. 1 \<le> s \<and> s \<le> e \<and> e \<le> total_pages"
  shows "\<forall>(s, e) \<in> set ranges. 1 \<le> s \<and> s \<le> e \<and> e \<le> total_pages"
  using assms(2,3)
proof (induction parts arbitrary: acc)
  case Nil
  then show ?case by simp
next
  case (Cons part parts)
  from Cons.prems(1) obtain r where
    r: "parse_part (py_strip part) total_pages = Inr r"
    and rest: "parse_parts parts total_pages (acc @ [r]) = Inr ranges"
    by (auto split: sum.splits)
  obtain s e where se: "r = (s, e)" by (cases r)
  have "1 \<le> s \<and> s \<le> e \<and> e \<le> total_pages"
    using parse_part_bounds [OF assms(1)] r se by simp
  with Cons.prems(2) se
  have "\<forall>(s, e) \<in> set (acc @ [r]). 1 \<le> s \<and> s \<le> e \<and> e \<le> total_pages"
    by auto
  with Cons.IH rest show ?case by blast
qed

text \<open>
  C8. When the document has at least one page and every comma-separated part of the
  specification parses (the call returns instead of raising \<open>ValueError\<close>), every
  returned pair \<open>(start, end)\<close> has \<open>1 \<le> start \<le> end \<le> total_pages\<close>.
\<close>

theorem page_ranges_within_bounds:
  assumes "1 \<le> total_pages"
    and "parse_page_ranges pages total_pages = Inr ranges"
  shows "\<forall>(s, e) \<in> set ranges. 1 \<le> s \<and> s \<le> e \<and> e \<le> total_pages"
  using parse_parts_bounds [OF assms(1), of "split_on CHR '','' pages" "[]" ranges] assms(2)
  by (simp add: parse_page_ranges_def)

lemma example_ranges:
  "parse_page_ranges ''1-3, 5,0,7-10'' 8 = Inr [(1, 3), (5, 5), (1, 1), (7, 8)]"
  by code_simp

theorem page_ranges_within_bounds_witness:
  "(1::int) \<le> 8
   \<and> parse_page_ranges ''1-3, 5,0,7-10'' 8 = Inr [(1, 3), (5, 5), (1, 1), (7, 8)]
   \<and> list_all (\<lambda>(s, e). 1 \<le> s \<and> s \<le> e \<and> e \<le> (8::int)) [(1, 3), (5, 5), (1, 1), (7, 8)]"
proof -
  have one: "(1::int) \<le> 8" by simp
  from page_ranges_within_bounds [OF one example_ranges] example_ranges show ?thesis
    by (simp add: list_all_iff)
qed

section \<open>The toolkit has no logger\<close>

lemma init_has_no_logger:
  assumes "PDFToolkit_init m = Inr self"
  shows "logger_error self = Some no_logger"
proof -
  have "self ''logger'' = None"
    using assms by (auto simp: PDFToolkit_init_def Let_def split: if_splits)
  then show ?thesis by (simp add: logger_error_def getattr_def no_logger_def)
qed

lemma handled_without_logger:
  assumes "PDFToolkit_init m = Inr self"
  shows "handled self wrap body = (case body of Inl e \<Rightarrow> Inl no_logger | Inr p \<Rightarrow> Inr p)"
  using init_has_no_logger [OF assms] by (simp add: handled_def split: sum.splits)

text \<open>
  C10. On a toolkit made by \<open>__init__\<close>, each of \<open>organize_pdf\<close>, \<open>unlock_pdf\<close>, \<open>ocr_pdf\<close>,
  \<open>compare_pdfs\<close>, \<open>redact_pdf\<close>, \<open>edit_pdf_text\<close> and \<open>sign_pdf\<close> either returns the output
  path or raises \<open>AttributeError\<close> for the missing attribute \<open>logger\<close>: whenever a step of
  the body raises, the caller sees that \<open>AttributeError\<close>, never the wrapped
  \<open>Exception\<close>.
\<close>

theorem toolkit_failures_raise_attribute_error:
  assumes "PDFToolkit_init m = Inr self"
  shows
    "((\<forall>p. organize_pdf m self library \<noteq> Inr p) \<longrightarrow> organize_pdf m self library = Inl no_logger)
     \<and> ((\<forall>p. unlock_pdf m self mkstemp doc password \<noteq> Inr p) \<longrightarrow>
          unlock_pdf m self mkstemp doc password = Inl no_logger)
     \<and> ((\<forall>p. ocr_pdf m self mkstemp steps \<noteq> Inr p) \<longrightarrow> ocr_pdf m self mkstemp steps = Inl no_logger)
     \<and> ((\<forall>p. compare_pdfs m self mkstemp steps \<noteq> Inr p) \<longrightarrow>
          compare_pdfs m self mkstemp steps = Inl no_logger)
     \<and> ((\<forall>p. redact_pdf m self mkstemp steps \<noteq> Inr p) \<longrightarrow>
          redact_pdf m self mkstemp steps = Inl no_logger)
     \<and> ((\<forall>p. edit_pdf_text m self mkstemp steps \<noteq> Inr p) \<longrightarrow>
          edit_pdf_text m self mkstemp steps = Inl no_logger)
     \<and> ((\<forall>p. sign_pdf m self mkstemp steps \<noteq> Inr p) \<longrightarrow>
          sign_pdf m self mkstemp steps = Inl no_logger)"
  unfolding organize_pdf_def unlock_pdf_def ocr_pdf_def compare_pdfs_def redact_pdf_def
    edit_pdf_text_def sign_pdf_def handled_without_logger [OF assms]
  by (auto split: sum.splits)

theorem toolkit_failures_raise_attribute_error_witness:
  "PDFToolkit_init only_pypdf2 = Inr pypdf2_toolkit
   \<and> organize_pdf only_pypdf2 pypdf2_toolkit (Inr ''organized_1.pdf'') = Inl no_logger
   \<and> sign_pdf only_pypdf2 pypdf2_toolkit (Inr ''signed_1.pdf'') (\<lambda>p. None) = Inl no_logger"
proof -
  have made: "PDFToolkit_init only_pypdf2 = Inr pypdf2_toolkit"
    by (simp add: PDFToolkit_init_def only_pypdf2_def pypdf2_toolkit_def)
  have a: "\<forall>p. organize_pdf only_pypdf2 pypdf2_toolkit (Inr ''organized_1.pdf'') \<noteq> Inr p"
    by (simp add: organize_pdf_def handled_def only_pypdf2_def split: option.splits)
  have b: "\<forall>p. sign_pdf only_pypdf2 pypdf2_toolkit (Inr ''signed_1.pdf'') (\<lambda>p. None) \<noteq> Inr p"
    by (simp add: sign_pdf_def needs_pymupdf_def handled_def only_pypdf2_def
        split: option.splits)
  from toolkit_failures_raise_attribute_error [OF made,
      where library = "Inr ''organized_1.pdf''" and mkstemp = "Inr ''signed_1.pdf''"
        and steps = "\<lambda>p. None"] a b made
  show ?thesis by simp
qed

section \<open>Rounding to the nearest double\<close>

lemma bitlen_rat_bounds:
  assumes "0 < a"
  shows "(2::rat) powi (bitlen a - 1) \<le> of_int a" and "of_int a < (2::rat) powi (bitlen a)"
proof -
  have b: "2 ^ nat (bitlen a - 1) \<le> a" "a < 2 ^ nat (bitlen a)"
    using bitlen_bounds[OF assms] by simp_all
  have l1: "1 \<le> bitlen a"
  proof (rule ccontr)
    assume "\<not> 1 \<le> bitlen a"
    then have "nat (bitlen a) = 0" by simp
    with b(2) assms show False by simp
  qed
  have "(of_int (2 ^ nat (bitlen a - 1)) :: rat) \<le> of_int a"
    using b(1) by (simp only: of_int_le_iff)
  then show "(2::rat) powi (bitlen a - 1) \<le> of_int a"
    using l1 by (simp add: power_int_def)
  have "(of_int a :: rat) < of_int (2 ^ nat (bitlen a))"
    using b(2) by (simp only: of_int_less_iff)
  then show "of_int a < (2::rat) powi (bitlen a)"
    using l1 by (simp add: power_int_def)
qed

lemma ilog2_bounds:
  assumes "0 < x"
  shows "2 powi (ilog2 x) \<le> x \<and> x < 2 powi (ilog2 x + 1)"
proof -
  obtain a b where q: "quotient_of x = (a, b)" by (cases "quotient_of x")
  have bpos: "0 < b" using q by (rule quotient_of_denom_pos)
  have xab: "x = of_int a / of_int b" using q by (rule quotient_of_div)
  have apos: "0 < a" using assms bpos xab by (simp add: zero_less_divide_iff)
  define la where "la = bitlen a"
  define lb where "lb = bitlen b"
  define A :: rat where "A = of_int a"
  define B :: rat where "B = of_int b"
  define PA :: rat where "PA = 2 powi (la - 1)"
  define PB :: rat where "PB = 2 powi (lb - 1)"
  have ra: "PA \<le> A" "A < 2 * PA"
    using bitlen_rat_bounds[OF apos] by (simp_all add: la_def A_def PA_def power_int_diff)
  have rb: "PB \<le> B" "B < 2 * PB"
    using bitlen_rat_bounds[OF bpos] by (simp_all add: lb_def B_def PB_def power_int_diff)
  have pos: "0 < PA" "0 < PB" by (simp_all add: PA_def PB_def)
  have Bpos: "0 < B" using rb(1) pos(2) by linarith
  have x: "x = A / B" by (simp add: xab A_def B_def)
  have upper: "x < 2 * (PA / PB)"
  proof -
    have "A / B < 2 * PA / B" using ra(2) Bpos by (rule divide_strict_right_mono)
    also have "2 * PA / B \<le> 2 * PA / PB"
      using rb(1) pos by (intro divide_left_mono) simp_all
    finally show ?thesis by (simp add: x)
  qed
  have lower: "PA / PB / 2 < x"
  proof -
    have "PA / (2 * PB) < PA / B"
      using rb(2) pos Bpos by (intro divide_strict_left_mono) simp_all
    also have "PA / B \<le> A / B" using ra(1) Bpos by (intro divide_right_mono) simp_all
    finally show ?thesis by (simp add: x)
  qed
  have e: "(2::rat) powi (la - lb) = PA / PB"
    by (simp add: PA_def PB_def power_int_diff)
  have il: "ilog2 x = (if PA / PB \<le> x then la - lb else la - lb - 1)"
    by (simp add: ilog2_def q la_def lb_def e[unfolded la_def lb_def])
  show ?thesis
  proof (cases "PA / PB \<le> x")
    case True
    then have "ilog2 x = la - lb" using il by simp
    moreover have "(2::rat) powi (la - lb + 1) = 2 * (PA / PB)"
      by (simp add: power_int_add e)
    ultimately show ?thesis using True e upper by simp
  next
    case False
    then have "ilog2 x = la - lb - 1" using il by simp
    moreover have "(2::rat) powi (la - lb - 1) = PA / PB / 2"
      by (simp add: power_int_diff e)
    moreover have "(2::rat) powi (la - lb - 1 + 1) = PA / PB"
      by (simp add: e)
    ultimately show ?thesis using False lower by simp
  qed
qed


lemma powi2_less_D:
  assumes "(2::rat) powi a < 2 powi b"
  shows "a < b"
proof (rule ccontr)
  assume "\<not> a < b"
  then have "b \<le> a" by simp
  then have "(2::rat) powi b \<le> 2 powi a" by (intro power_int_increasing) simp_all
  with assms show False by linarith
qed

lemma round_half_even_close: "\<bar>of_int (round_half_even q) - q\<bar> \<le> 1 / 2"
proof -
  have "of_int \<lfloor>q\<rfloor> \<le> q" "q < of_int \<lfloor>q\<rfloor> + 1" by linarith+
  then show ?thesis by (auto simp: round_half_even_def Let_def)
qed

lemma round_half_even_int [simp]: "round_half_even (of_int n) = n"
  by (simp add: round_half_even_def)

lemma round_half_even_0 [simp]: "round_half_even 0 = 0"
  by (simp add: round_half_even_def)

lemma nearest_0 [simp]: "nearest 0 = 0"
  by (simp add: nearest_def)

lemma ulp_pos: "0 < ulp x"
  by (simp add: ulp_def)

lemma nearest_close: "\<bar>nearest x - x\<bar> \<le> ulp x / 2"
proof -
  define u where "u = ulp x"
  have u: "0 < u" by (simp add: u_def ulp_pos)
  define m :: rat where "m = of_int (round_half_even (x / u))"
  have "\<bar>m - x / u\<bar> \<le> 1 / 2" unfolding m_def by (rule round_half_even_close)
  then have "\<bar>m - x / u\<bar> * u \<le> 1 / 2 * u" using u by (intro mult_right_mono) simp_all
  moreover have "\<bar>m - x / u\<bar> * u = \<bar>m * u - x\<bar>"
  proof -
    have "\<bar>m - x / u\<bar> * u = \<bar>(m - x / u) * u\<bar>" using u by (simp add: abs_mult)
    also have "(m - x / u) * u = m * u - x" using u by (simp add: field_simps)
    finally show ?thesis .
  qed
  ultimately show ?thesis by (simp add: nearest_def m_def u_def)
qed

lemma fl_exp_normal:
  assumes "2 powi (- 1022) \<le> \<bar>x\<bar>"
  shows "fl_exp x = ilog2 \<bar>x\<bar>" and "2 powi (fl_exp x) \<le> \<bar>x\<bar>"
proof -
  have "(0::rat) < 2 powi (- 1022)" by simp
  then have pos: "0 < \<bar>x\<bar>" using assms by linarith
  have b: "2 powi (ilog2 \<bar>x\<bar>) \<le> \<bar>x\<bar>" "\<bar>x\<bar> < 2 powi (ilog2 \<bar>x\<bar> + 1)"
    using ilog2_bounds [OF pos] by simp_all
  have "(2::rat) powi (- 1022) < 2 powi (ilog2 \<bar>x\<bar> + 1)" using assms b(2) by linarith
  then have "- 1022 < ilog2 \<bar>x\<bar> + 1" by (rule powi2_less_D)
  then show "fl_exp x = ilog2 \<bar>x\<bar>" using pos by (simp add: fl_exp_def)
  then show "2 powi (fl_exp x) \<le> \<bar>x\<bar>" using b(1) by simp
qed

lemma nearest_relative:
  assumes "2 powi (- 1022) \<le> \<bar>x\<bar>"
  shows "\<bar>nearest x - x\<bar> \<le> \<bar>x\<bar> / 2 ^ 53"
proof -
  have "ulp x = 2 powi (fl_exp x) / 2 ^ 52"
    by (simp add: ulp_def power_int_diff)
  also have "\<dots> \<le> \<bar>x\<bar> / 2 ^ 52"
    using fl_exp_normal(2) [OF assms] by (intro divide_right_mono) simp_all
  finally have "ulp x / 2 \<le> \<bar>x\<bar> / 2 ^ 52 / 2" by simp
  also have "\<bar>x\<bar> / 2 ^ 52 / 2 = \<bar>x\<bar> / 2 ^ 53" by simp
  finally show ?thesis using nearest_close [of x] by linarith
qed

lemma fl_no_overflow:
  assumes "\<bar>nearest x\<bar> < 2 powi 1024"
  shows "fl x = Inr (nearest x)"
proof (cases "nearest x = 0")
  case True
  then show ?thesis by (simp add: fl_def)
next
  case False
  then have pos: "0 < \<bar>nearest x\<bar>" by simp
  have "2 powi (ilog2 \<bar>nearest x\<bar>) \<le> \<bar>nearest x\<bar>" using ilog2_bounds [OF pos] by simp
  then have "(2::rat) powi (ilog2 \<bar>nearest x\<bar>) < 2 powi 1024" using assms by linarith
  then have "ilog2 \<bar>nearest x\<bar> < 1024" by (rule powi2_less_D)
  then show ?thesis by (simp add: fl_def)
qed

lemma fl_relative:
  assumes "2 powi (- 1022) \<le> \<bar>x\<bar>" and "\<bar>x\<bar> \<le> 2 powi 1023"
  shows "\<exists>r. fl x = Inr r \<and> \<bar>r - x\<bar> \<le> \<bar>x\<bar> / 2 ^ 53"
proof -
  have rel: "\<bar>nearest x - x\<bar> \<le> \<bar>x\<bar> / 2 ^ 53" using assms(1) by (rule nearest_relative)
  have "\<bar>x\<bar> / 2 ^ 53 \<le> \<bar>x\<bar> / 2" by (intro divide_left_mono) simp_all
  then have "\<bar>nearest x\<bar> \<le> 3 / 2 * \<bar>x\<bar>" using rel by linarith
  also have "\<dots> \<le> 3 / 2 * 2 powi 1023" using assms(2) by simp
  also have "\<dots> < 2 * 2 powi 1023" by simp
  also have "\<dots> = (2::rat) powi 1024" by (simp add: power_int_def)
  finally have "fl x = Inr (nearest x)" by (rule fl_no_overflow)
  with rel show ?thesis by simp
qed

lemma fl_zero: "fl 0 = Inr 0"
  by (simp add: fl_def)

lemma nearest_int_exact:
  assumes "\<bar>n\<bar> < 2 ^ 53"
  shows "nearest (of_int n) = of_int n"
proof (cases "n = 0")
  case True
  then show ?thesis by simp
next
  case False
  define x :: rat where "x = of_int n"
  have ax: "\<bar>x\<bar> = of_int \<bar>n\<bar>" by (simp add: x_def)
  have "1 \<le> \<bar>n\<bar>" using False by simp
  then have one: "1 \<le> \<bar>x\<bar>" unfolding ax by (simp only: of_int_1_le_iff)
  have top: "\<bar>x\<bar> < 2 ^ 53"
  proof -
    have "(of_int \<bar>n\<bar> :: rat) < of_int (2 ^ 53)" using assms by (simp only: of_int_less_iff)
    then show ?thesis by (simp add: ax)
  qed
  have "(2::rat) powi (- 1022) \<le> 1" by (simp add: power_int_def field_simps)
  then have normal: "2 powi (- 1022) \<le> \<bar>x\<bar>" using one by linarith
  define e where "e = ilog2 \<bar>x\<bar>"
  have fe: "fl_exp x = e" using fl_exp_normal(1) [OF normal] by (simp add: e_def)
  have pos: "0 < \<bar>x\<bar>" using one by linarith
  have b: "2 powi e \<le> \<bar>x\<bar>" "\<bar>x\<bar> < 2 powi (e + 1)"
    using ilog2_bounds [OF pos] by (simp_all add: e_def)
  have "(2::rat) powi e < 2 powi 53" using b(1) top by (simp add: power_int_def)
  then have e_hi: "e < 53" by (rule powi2_less_D)
  have "(2::rat) powi 0 < 2 powi (e + 1)" using b(2) one by simp
  then have e_lo: "0 < e + 1" by (rule powi2_less_D)
  define k where "k = nat (52 - e)"
  have ek: "e - 52 = - int k" using e_hi by (simp add: k_def)
  have u: "ulp x = 1 / 2 ^ k"
    by (simp add: ulp_def fe ek power_int_minus field_simps)
  have "x / ulp x = x * 2 ^ k" by (simp add: u)
  also have "\<dots> = of_int (n * 2 ^ k)" by (simp add: x_def)
  finally have "x / ulp x = of_int (n * 2 ^ k)" .
  then have "round_half_even (x / ulp x) = n * 2 ^ k" by (simp only: round_half_even_int)
  then have "nearest x = of_int (n * 2 ^ k) * (1 / 2 ^ k)" by (simp add: nearest_def u)
  also have "\<dots> = x" by (simp add: x_def)
  finally show ?thesis by (simp add: x_def)
qed

lemma fl_int_exact:
  assumes "\<bar>n\<bar> < 2 ^ 53"
  shows "fl (of_int n) = Inr (of_int n)"
proof -
  have eq: "nearest (of_int n) = of_int n" using assms by (rule nearest_int_exact)
  have "(of_int \<bar>n\<bar> :: rat) < of_int (2 ^ 53)" using assms by (simp only: of_int_less_iff)
  then have "\<bar>of_int n :: rat\<bar> < 2 ^ 53" by simp
  also have "(2::rat) ^ 53 \<le> 2 powi 1024" by (simp add: power_int_def)
  finally have "\<bar>nearest (of_int n)\<bar> < 2 powi 1024" by (simp add: eq)
  then have "fl (of_int n) = Inr (nearest (of_int n))" by (rule fl_no_overflow)
  then show ?thesis by (simp add: eq)
qed


section \<open>Readability\<close>

text \<open>
  C7. \<open>_calculate_readability\<close> always returns an integer between 0 and 100. When
  textstat returns a finite score, the result is that score truncated towards zero and
  clamped into the range; when textstat raises, the result is 50.
\<close>

theorem readability_in_range:
  "0 \<le> calculate_readability flesch text
   \<and> calculate_readability flesch text \<le> 100
   \<and> (\<forall>x. flesch text = Inr (Finite x) \<longrightarrow>
         calculate_readability flesch text
           = max 0 (min 100 (if 0 \<le> x then \<lfloor>x\<rfloor> else \<lceil>x\<rceil>)))
   \<and> (\<forall>e. flesch text = Inl e \<longrightarrow> calculate_readability flesch text = 50)"
proof -
  have range: "0 \<le> calculate_readability flesch text \<and> calculate_readability flesch text \<le> 100"
    by (simp add: calculate_readability_def split: sum.splits)
  have finite: "\<forall>x. flesch text = Inr (Finite x) \<longrightarrow>
         calculate_readability flesch text
           = max 0 (min 100 (if 0 \<le> x then \<lfloor>x\<rfloor> else \<lceil>x\<rceil>))"
    by (simp add: calculate_readability_def py_trunc_def)
  have raised: "\<forall>e. flesch text = Inl e \<longrightarrow> calculate_readability flesch text = 50"
    by (simp add: calculate_readability_def)
  from range finite raised show ?thesis by blast
qed

theorem readability_in_range_witness:
  "calculate_readability (\<lambda>t. Inr (Finite (1357 / 10))) ''See Spot run.'' = 100
   \<and> calculate_readability (\<lambda>t. Inr (Finite (- 7 / 2))) ''See Spot run.'' = 0
   \<and> calculate_readability (\<lambda>t. Inr (Finite (617 / 10))) ''See Spot run.'' = 61
   \<and> calculate_readability (\<lambda>t. Inl (LibraryError ''no words'')) [] = 50"
proof -
  have easy: "calculate_readability (\<lambda>t. Inr (Finite (1357 / 10))) ''See Spot run.''
      = max 0 (min 100 (if (0::rat) \<le> 1357 / 10 then \<lfloor>1357 / 10 :: rat\<rfloor> else \<lceil>1357 / 10 :: rat\<rceil>))"
    using readability_in_range [of "\<lambda>t. Inr (Finite (1357 / 10))" "''See Spot run.''"]
    by blast
  have hard: "calculate_readability (\<lambda>t. Inr (Finite (- 7 / 2))) ''See Spot run.''
      = max 0 (min 100 (if (0::rat) \<le> - 7 / 2 then \<lfloor>- 7 / 2 :: rat\<rfloor> else \<lceil>- 7 / 2 :: rat\<rceil>))"
    using readability_in_range [of "\<lambda>t. Inr (Finite (- 7 / 2))" "''See Spot run.''"]
    by blast
  have plain: "calculate_readability (\<lambda>t. Inr (Finite (617 / 10))) ''See Spot run.''
      = max 0 (min 100 (if (0::rat) \<le> 617 / 10 then \<lfloor>617 / 10 :: rat\<rfloor> else \<lceil>617 / 10 :: rat\<rceil>))"
    using readability_in_range [of "\<lambda>t. Inr (Finite (617 / 10))" "''See Spot run.''"]
    by blast
  have failing: "calculate_readability (\<lambda>t. Inl (LibraryError ''no words'')) [] = 50"
    using readability_in_range [of "\<lambda>t. Inl (LibraryError ''no words'')" "[]"]
    by blast
  have "\<lceil>- 7 / 2 :: rat\<rceil> = - 3" by (simp add: ceiling_eq_iff)
  moreover have "\<lfloor>617 / 10 :: rat\<rfloor> = 61" by (simp add: floor_eq_iff)
  moreover have "\<lfloor>1357 / 10 :: rat\<rfloor> = 135" by (simp add: floor_eq_iff)
  ultimately show ?thesis using easy hard plain failing by simp
qed

section \<open>SEO scores\<close>

lemma lit_values: "lit_0_4 = 3602879701896397 / 2 ^ 53" "lit_0_3 = 5404319552844595 / 2 ^ 54"
  by code_simp+

lemma fl_moderate:
  assumes "1 \<le> x" and "x \<le> 1000"
  shows "\<exists>r. fl x = Inr r \<and> x \<le> 2 * r \<and> r \<le> 2 * x"
proof -
  have lo: "(2::rat) powi (- 1022) \<le> 1" by (simp add: power_int_def field_simps)
  have hi: "(1000::rat) \<le> 2 powi 1023" by (simp add: power_int_def)
  have ax: "\<bar>x\<bar> = x" using assms(1) by simp
  have "2 powi (- 1022) \<le> \<bar>x\<bar>" "\<bar>x\<bar> \<le> 2 powi 1023"
    using assms lo hi ax by linarith+
  from fl_relative [OF this] obtain r where r: "fl x = Inr r" "\<bar>r - x\<bar> \<le> \<bar>x\<bar> / 2 ^ 53"
    by blast
  have "\<bar>x\<bar> / 2 ^ 53 \<le> \<bar>x\<bar> / 2" by (intro divide_left_mono) simp_all
  with r(2) ax have "x \<le> 2 * r \<and> r \<le> 2 * x" by linarith
  with r(1) show ?thesis by blast
qed

lemma score_times_weight:
  assumes "10 \<le> t" and "t \<le> 100" and "w = lit_0_4 \<or> w = lit_0_3"
  shows "\<exists>a. int_times_float t w = Inr a \<and> 1 \<le> a \<and> a \<le> 100"
proof -
  have "\<bar>t\<bar> < 2 ^ 53" using assms(1,2) by simp
  then have conv: "float_of_int t = Inr (of_int t)"
    unfolding float_of_int_def by (rule fl_int_exact)
  define x :: rat where "x = of_int t * w"
  have t: "(10::rat) \<le> of_int t" "(of_int t :: rat) \<le> 100"
    using assms(1,2) by simp_all
  have "29 / 100 \<le> lit_0_4 \<and> lit_0_4 \<le> 41 / 100" "29 / 100 \<le> lit_0_3 \<and> lit_0_3 \<le> 41 / 100"
    by (simp_all add: lit_values)
  with assms(3) have w: "29 / 100 \<le> w" "w \<le> 41 / 100" by auto
  have "10 * (29 / 100) \<le> x" unfolding x_def using t(1) w(1) by (intro mult_mono) simp_all
  moreover have "x \<le> 100 * (41 / 100)" unfolding x_def using t w by (intro mult_mono) simp_all
  ultimately have x: "2 \<le> x \<and> 2 * x \<le> 100" by linarith
  then have "1 \<le> x" "x \<le> 1000" by simp_all
  from fl_moderate [OF this] obtain r where r: "fl x = Inr r" "x \<le> 2 * r" "r \<le> 2 * x"
    by blast
  have "1 \<le> r \<and> r \<le> 100" using x r(2,3) by linarith
  moreover have "int_times_float t w = Inr r"
    using conv r(1) by (simp add: int_times_float_def and_then_def float_mul_def x_def)
  ultimately show ?thesis by blast
qed

lemma weighted_sum:
  assumes "10 \<le> t" "t \<le> 100" "10 \<le> c" "c \<le> 100" "10 \<le> p" "p \<le> 100"
  shows "\<exists>a b ab c' total.
      int_times_float t lit_0_4 = Inr a \<and> int_times_float c lit_0_3 = Inr b
      \<and> float_add a b = Inr ab \<and> int_times_float p lit_0_3 = Inr c'
      \<and> float_add ab c' = Inr total \<and> 0 \<le> total"
proof -
  obtain a where a: "int_times_float t lit_0_4 = Inr a" "1 \<le> a" "a \<le> 100"
    using score_times_weight [OF assms(1,2)] by blast
  obtain b where b: "int_times_float c lit_0_3 = Inr b" "1 \<le> b" "b \<le> 100"
    using score_times_weight [OF assms(3,4)] by blast
  obtain c' where c: "int_times_float p lit_0_3 = Inr c'" "1 \<le> c'" "c' \<le> 100"
    using score_times_weight [OF assms(5,6)] by blast
  have "1 \<le> a + b" using a(2) b(2) by linarith
  moreover have "a + b \<le> 1000" using a(3) b(3) by linarith
  ultimately have "1 \<le> a + b" "a + b \<le> 1000" .
  from fl_moderate [OF this] obtain ab where
    ab: "float_add a b = Inr ab" "a + b \<le> 2 * ab" "ab \<le> 2 * a + 2 * b"
    unfolding float_add_def by (auto simp: algebra_simps)
  have "1 \<le> ab + c'" using a(2) b(2) c(2) ab(2) by linarith
  moreover have "ab + c' \<le> 1000" using a(3) b(3) c(3) ab(3) by linarith
  ultimately have "1 \<le> ab + c'" "ab + c' \<le> 1000" .
  from fl_moderate [OF this] obtain total where
    total: "float_add ab c' = Inr total" "ab + c' \<le> 2 * total"
    unfolding float_add_def by blast
  have "0 \<le> total" using total(2) ab(2) a(2) b(2) c(2) by linarith
  with a(1) b(1) ab(1) c(1) total(1) show ?thesis by blast
qed

lemma hierarchy_range:
  "40 \<le> calculate_heading_hierarchy_score h \<and> calculate_heading_hierarchy_score h \<le> 100"
proof -
  have up: "[2..<7] = [2, 3, 4, 5, 6 :: nat]" by (simp add: upt_rec)
  show ?thesis
    unfolding calculate_heading_hierarchy_score_def Let_def up
    by (simp add: numeral_eq_Suc)
qed

lemma float_times_int_commute: "float_times_int f i = int_times_float i f"
  by (simp add: float_times_int_def int_times_float_def float_mul_def mult.commute)

text \<open>
  C3. For the heading analysis of any page (any six heading counts) and any five status
  strings, \<open>_calculate_scores\<close> returns a result whose overall score is
  \<open>max(0, int(0.4 * technical + 0.3 * content + 0.3 * performance))\<close> of the technical,
  content and performance scores it returns; the technical score is 100 less 20 or 10
  for the title, 20 or 10 for the meta description and 15 or 8 for the H1 status; the
  content score is the heading hierarchy score less 30 or 15; the performance score is
  100 less 40 or 20; and all four scores are at least 0.
\<close>

theorem seo_scores_weighted:
  "\<exists>s. calculate_scores title_status meta_status (analyze_headings h) content_status
          speed_status = Inr s
     \<and> weighted_overall (technical s) (content s) (performance s) = Inr (overall s)
     \<and> technical s
         = 100 - (if title_status = ''critical'' then 20
                  else if title_status = ''warning'' then 10 else 0)
               - (if meta_status = ''critical'' then 20
                  else if meta_status = ''warning'' then 10 else 0)
               - (if h1_status (analyze_headings h) = ''critical'' then 15
                  else if h1_status (analyze_headings h) = ''warning'' then 8 else 0)
     \<and> content s
         = calculate_heading_hierarchy_score h
             - (if content_status = ''critical'' then 30
                else if content_status = ''warning'' then 15 else 0)
     \<and> performance s
         = 100 - (if speed_status = ''critical'' then 40
                  else if speed_status = ''warning'' then 20 else 0)
     \<and> 0 \<le> overall s \<and> 0 \<le> technical s \<and> 0 \<le> content s \<and> 0 \<le> performance s"
proof -
  define T :: int where
    "T = 100 - (if title_status = ''critical'' then 20
                  else if title_status = ''warning'' then 10 else 0)
               - (if meta_status = ''critical'' then 20
                  else if meta_status = ''warning'' then 10 else 0)
               - (if h1_status (analyze_headings h) = ''critical'' then 15
                  else if h1_status (analyze_headings h) = ''warning'' then 8 else 0)"
  define C :: int where
    "C = calculate_heading_hierarchy_score h
             - (if content_status = ''critical'' then 30
                else if content_status = ''warning'' then 15 else 0)"
  define P :: int where
    "P = 100 - (if speed_status = ''critical'' then 40
                  else if speed_status = ''warning'' then 20 else 0)"
  have T: "10 \<le> T" "T \<le> 100" by (simp_all add: T_def)
  have C: "10 \<le> C" "C \<le> 100" using hierarchy_range [of h] by (simp_all add: C_def)
  have P: "10 \<le> P" "P \<le> 100" by (simp_all add: P_def)
  from weighted_sum [OF T C P] obtain a b ab c' total where
    steps: "int_times_float T lit_0_4 = Inr a" "int_times_float C lit_0_3 = Inr b"
      "float_add a b = Inr ab" "int_times_float P lit_0_3 = Inr c'"
      "float_add ab c' = Inr total"
    and total: "0 \<le> total"
    by blast
  define s where
    "s = \<lparr>overall = max 0 (py_trunc total), technical = T, content = C, performance = P\<rparr>"
  have hs: "hierarchy_score (analyze_headings h) = calculate_heading_hierarchy_score h"
    by (simp add: analyze_headings_def)
  have unfold: "calculate_scores title_status meta_status (analyze_headings h) content_status
          speed_status
      = and_then (int_times_float T lit_0_4) (\<lambda>a.
        and_then (int_times_float C lit_0_3) (\<lambda>b.
        and_then (float_add a b) (\<lambda>ab.
        and_then (int_times_float P lit_0_3) (\<lambda>c.
        and_then (float_add ab c) (\<lambda>total.
           Inr \<lparr>overall = max 0 (py_trunc total), technical = max 0 T,
                    content = max 0 C, performance = max 0 P\<rparr>)))))"
    by (simp add: calculate_scores_def Let_def hs T_def C_def P_def)
  have result: "calculate_scores title_status meta_status (analyze_headings h) content_status
          speed_status = Inr s"
    using T(1) C(1) P(1) by (simp add: unfold steps and_then_def s_def)
  have formula: "weighted_overall (technical s) (content s) (performance s) = Inr (overall s)"
    by (simp add: weighted_overall_def float_times_int_commute steps and_then_def s_def)
  have "technical s = T" "content s = C" "performance s = P" "0 \<le> overall s"
    by (simp_all add: s_def)
  with result formula T(1) C(1) P(1) show ?thesis
    unfolding T_def C_def P_def by (intro exI [of _ s]) simp
qed


lemma example_overall: "weighted_overall 90 70 100 = Inr 87"
  by code_simp

theorem seo_scores_weighted_witness:
  "\<exists>s. calculate_scores ''good'' ''warning'' (analyze_headings (\<lambda>i. if i = 1 then 1 else 0))
          ''critical'' ''good'' = Inr s
     \<and> technical s = 90 \<and> content s = 70 \<and> performance s = 100 \<and> overall s = 87"
proof -
  have page: "calculate_heading_hierarchy_score (\<lambda>i. if i = 1 then 1 else 0) = 100"
    by (simp add: calculate_heading_hierarchy_score_def upt_rec)
  have h1: "h1_status (analyze_headings (\<lambda>i. if i = 1 then 1 else 0)) = ''good''"
    by (simp add: analyze_headings_def)
  from seo_scores_weighted [of "''good''" "''warning''" "\<lambda>i. if i = 1 then 1 else 0"
      "''critical''" "''good''"]
  obtain s where s: "calculate_scores ''good'' ''warning''
        (analyze_headings (\<lambda>i. if i = 1 then 1 else 0)) ''critical'' ''good'' = Inr s"
    "weighted_overall (technical s) (content s) (performance s) = Inr (overall s)"
    "technical s = 90" "content s = 70" "performance s = 100"
    unfolding page h1 by auto
  from s(2) have "overall s = 87" unfolding s(3,4,5) example_overall by simp
  with s show ?thesis by blast
qed

section \<open>Image dimensions\<close>

lemma fl_wide:
  assumes "1 / 2 ^ 200 \<le> x" and "x \<le> 2 ^ 200"
  shows "\<exists>r. fl x = Inr r \<and> x - x / 2 ^ 53 \<le> r \<and> r \<le> x + x / 2 ^ 53"
proof -
  have lo: "(2::rat) powi (- 1022) \<le> 1 / 2 ^ 200" by (simp add: power_int_def field_simps)
  have hi: "(2::rat) ^ 200 \<le> 2 powi 1023" by (simp add: power_int_def)
  have "(0::rat) < 1 / 2 ^ 200" by simp
  then have pos: "0 < x" using assms(1) by linarith
  then have ax: "\<bar>x\<bar> = x" by simp
  have "2 powi (- 1022) \<le> \<bar>x\<bar>" "\<bar>x\<bar> \<le> 2 powi 1023"
    using assms lo hi ax by linarith+
  from fl_relative [OF this] obtain r where r: "fl x = Inr r" "\<bar>r - x\<bar> \<le> \<bar>x\<bar> / 2 ^ 53"
    by blast
  from r(2) ax have "x - x / 2 ^ 53 \<le> r \<and> r \<le> x + x / 2 ^ 53" by linarith
  with r(1) show ?thesis by blast
qed

lemma ratio_bounds:
  fixes a b :: rat
  assumes "1 \<le> a" "a \<le> A" "1 \<le> b" "b \<le> B"
  shows "1 / B \<le> a / b" and "a / b \<le> A"
proof -
  show "1 / B \<le> a / b" using assms by (intro frac_le) simp_all
  have "a / b \<le> A / 1" using assms by (intro frac_le) simp_all
  then show "a / b \<le> A" by simp
qed

lemma float_of_small_int:
  assumes "1 \<le> n" and "n \<le> 2 ^ 50"
  shows "float_of_int n = Inr (of_int n)"
proof -
  have "\<bar>n\<bar> < 2 ^ 53" using assms by simp
  then show ?thesis unfolding float_of_int_def by (rule fl_int_exact)
qed

lemma trunc_below:
  assumes "0 \<le> y" and "y < of_int n + 1"
  shows "0 \<le> py_trunc y \<and> py_trunc y \<le> n"
proof -
  have "\<lfloor>y\<rfloor> < n + 1" using assms(2) by (subst floor_less_iff) simp
  moreover have "0 \<le> \<lfloor>y\<rfloor>" using assms(1) by simp
  ultimately show ?thesis using assms(1) by (simp add: py_trunc_def)
qed


lemma fit_inside:
  assumes ow: "1 \<le> ow" "ow \<le> 2 ^ 50" and oh: "1 \<le> oh" "oh \<le> 2 ^ 50"
    and w: "1 \<le> w" "w \<le> 2 ^ 50" and h: "1 \<le> h" "h \<le> 2 ^ 50"
    and pct: "percentage = None \<or> percentage = Some 0"
  shows "\<exists>nw nh. new_dimensions ow oh (Some w) (Some h) percentage True = Inr (nw, nh)
      \<and> 0 \<le> nw \<and> nw \<le> w \<and> 0 \<le> nh \<and> nh \<le> h"
proof -
  define W :: rat where "W = of_int w"
  define H :: rat where "H = of_int h"
  define OW :: rat where "OW = of_int ow"
  define OH :: rat where "OH = of_int oh"
  have W: "1 \<le> W" "W \<le> 2 ^ 50"
  proof -
    have "(of_int 1 :: rat) \<le> of_int w" "(of_int w :: rat) \<le> of_int (2 ^ 50)"
      using w by (simp_all only: of_int_le_iff)
    then show "1 \<le> W" "W \<le> 2 ^ 50" by (simp_all add: W_def)
  qed
  have H: "1 \<le> H" "H \<le> 2 ^ 50"
  proof -
    have "(of_int 1 :: rat) \<le> of_int h" "(of_int h :: rat) \<le> of_int (2 ^ 50)"
      using h by (simp_all only: of_int_le_iff)
    then show "1 \<le> H" "H \<le> 2 ^ 50" by (simp_all add: H_def)
  qed
  have OW: "1 \<le> OW" "OW \<le> 2 ^ 50"
  proof -
    have "(of_int 1 :: rat) \<le> of_int ow" "(of_int ow :: rat) \<le> of_int (2 ^ 50)"
      using ow by (simp_all only: of_int_le_iff)
    then show "1 \<le> OW" "OW \<le> 2 ^ 50" by (simp_all add: OW_def)
  qed
  have OH: "1 \<le> OH" "OH \<le> 2 ^ 50"
  proof -
    have "(of_int 1 :: rat) \<le> of_int oh" "(of_int oh :: rat) \<le> of_int (2 ^ 50)"
      using oh by (simp_all only: of_int_le_iff)
    then show "1 \<le> OH" "OH \<le> 2 ^ 50" by (simp_all add: OH_def)
  qed
  define X where "X = OW / OH"
  define Q where "Q = W / H"
  have X: "1 / 2 ^ 50 \<le> X" "X \<le> 2 ^ 50"
    unfolding X_def using ratio_bounds [OF OW OH] by simp_all
  have Q: "1 / 2 ^ 50 \<le> Q" "Q \<le> 2 ^ 50"
    unfolding Q_def using ratio_bounds [OF W H] by simp_all
  have "1 / 2 ^ 200 \<le> X" "X \<le> 2 ^ 200" using X by simp_all
  from fl_wide [OF this] obtain ar where
    ar: "fl X = Inr ar" "X - X / 2 ^ 53 \<le> ar" "ar \<le> X + X / 2 ^ 53"
    by blast
  have "1 / 2 ^ 200 \<le> Q" "Q \<le> 2 ^ 200" using Q by simp_all
  from fl_wide [OF this] obtain q where
    q: "fl Q = Inr q" "Q - Q / 2 ^ 53 \<le> q" "q \<le> Q + Q / 2 ^ 53"
    by blast
  have ar_range: "1 / 2 ^ 51 \<le> ar" "ar \<le> 2 ^ 51" using ar(2,3) X by simp_all
  have "(0::rat) < 1 / 2 ^ 51" by simp
  then have ar_pos: "0 < ar" using ar_range(1) by linarith
  have HQ: "H * Q = W" using H(1) by (simp add: Q_def)
  have falsy: "\<not> (case percentage of None \<Rightarrow> False | Some p \<Rightarrow> p \<noteq> 0)"
    using pct by auto
  have nonzero: "oh \<noteq> 0" "h \<noteq> 0" "w \<noteq> 0" using oh h w by simp_all
  have unfolded: "new_dimensions ow oh (Some w) (Some h) percentage True
      = (if q > ar then and_then (int_times_float h ar) (\<lambda>x. Inr (py_trunc x, h))
         else and_then (int_div_float w ar) (\<lambda>y. Inr (w, py_trunc y)))"
    using falsy nonzero ar(1) q(1)
    by (simp add: new_dimensions_def given_def int_truediv_def and_then_def Let_def
        X_def Q_def OW_def OH_def W_def H_def)
  show ?thesis
  proof (cases "q > ar")
    case True
    define Y where "Y = H * ar"
    have "1 * ar \<le> H * ar" using H(1) ar_pos by (intro mult_right_mono) simp_all
    then have "ar \<le> Y" unfolding Y_def by (simp only: mult_1)
    then have Ylo: "1 / 2 ^ 51 \<le> Y" using ar_range(1) by linarith
    have "H * ar \<le> 2 ^ 50 * 2 ^ 51" using H ar_range(2) ar_pos by (intro mult_mono) simp_all
    then have "Y \<le> 2 ^ 50 * 2 ^ 51" unfolding Y_def .
    then have Yhi: "Y \<le> 2 ^ 101" by simp
    have "H * ar < H * q" using True H(1) by (intro mult_strict_left_mono) simp_all
    also have "H * q \<le> H * (Q + Q / 2 ^ 53)" using q(3) H(1) by (intro mult_left_mono) simp_all
    also have "\<dots> = W + W / 2 ^ 53" using HQ by (simp add: algebra_simps)
    finally have Yw: "Y < W + W / 2 ^ 53" by (simp add: Y_def)
    have "1 / 2 ^ 200 \<le> Y" "Y \<le> 2 ^ 200" using Ylo Yhi by simp_all
    from fl_wide [OF this] obtain y where
      y: "fl Y = Inr y" "Y - Y / 2 ^ 53 \<le> y" "y \<le> Y + Y / 2 ^ 53"
      by blast
    have y0: "0 \<le> y" using y(2) Ylo by simp
    have y1: "y < W + 1" using y(3) Yw W(2) by simp
    have conv: "float_of_int h = Inr H" unfolding H_def using h by (rule float_of_small_int)
    have run: "new_dimensions ow oh (Some w) (Some h) percentage True = Inr (py_trunc y, h)"
      using True conv y(1)
      by (simp add: unfolded int_times_float_def float_mul_def and_then_def Y_def)
    have "0 \<le> py_trunc y \<and> py_trunc y \<le> w"
      using y0 y1 unfolding W_def by (rule trunc_below)
    with run h(1) show ?thesis by simp
  next
    case False
    define Z where "Z = W / ar"
    define c :: rat where "c = 1 - 1 / 2 ^ 53"
    have Zar: "Z * ar = W" using ar_pos by (simp add: Z_def)
    have Zpos: "0 < Z" using W(1) ar_pos by (simp add: Z_def)
    have "1 / 2 ^ 51 \<le> W / ar" using W ar_range ar_pos by (intro frac_le) simp_all
    then have Zlo: "1 / 2 ^ 51 \<le> Z" by (simp add: Z_def)
    have "W / ar \<le> 2 ^ 50 / (1 / 2 ^ 51)" using W ar_range by (intro frac_le) simp_all
    then have Zhi: "Z \<le> 2 ^ 101" by (simp add: Z_def)
    have "(0::rat) < 1 / 2 ^ 50" by simp
    then have Qpos: "0 < Q" using Q(1) by linarith
    have "Q * c \<le> ar" using q(2) False by (simp add: c_def algebra_simps)
    then have step: "Z * (Q * c) \<le> Z * ar" using Zpos by (intro mult_left_mono) simp_all
    have "(Z * c) * Q = Z * (Q * c)" by (simp add: mult_ac)
    also note step
    also have "Z * ar = H * Q" by (simp add: Zar HQ)
    finally have "(Z * c) * Q \<le> H * Q" .
    then have "Z * c \<le> H" using Qpos by (simp only: mult_le_cancel_right_pos)
    then have Zh: "Z - Z / 2 ^ 53 \<le> H" by (simp add: c_def algebra_simps)
    have "1 / 2 ^ 200 \<le> Z" "Z \<le> 2 ^ 200" using Zlo Zhi by simp_all
    from fl_wide [OF this] obtain z where
      z: "fl Z = Inr z" "Z - Z / 2 ^ 53 \<le> z" "z \<le> Z + Z / 2 ^ 53"
      by blast
    have z0: "0 \<le> z" using z(2) Zpos by simp
    have z1: "z < H + 1" using z(3) Zh H(2) Zpos by simp
    have conv: "float_of_int w = Inr W" unfolding W_def using w by (rule float_of_small_int)
    have "ar \<noteq> 0" using ar_pos by simp
    then have run: "new_dimensions ow oh (Some w) (Some h) percentage True
        = Inr (w, py_trunc z)"
      using False conv z(1)
      by (simp add: unfolded int_div_float_def float_div_def and_then_def Z_def)
    have "0 \<le> py_trunc z \<and> py_trunc z \<le> h"
      using z0 z1 unfolding H_def by (rule trunc_below)
    with run w(1) show ?thesis by simp
  qed
qed


lemma size_change_defined:
  assumes "0 \<le> nw" "nw \<le> 2 ^ 50" "0 \<le> nh" "nh \<le> 2 ^ 50"
    and "1 \<le> ow" "ow \<le> 2 ^ 50" "1 \<le> oh" "oh \<le> 2 ^ 50"
  shows "\<exists>r. int_truediv (nw * nh) (ow * oh) = Inr r"
proof -
  have "1 * 1 \<le> ow * oh" using assms(5,7) by (intro mult_mono) simp_all
  then have den1: "1 \<le> ow * oh" by simp
  have den2: "ow * oh \<le> 2 ^ 50 * 2 ^ 50" using assms(5-8) by (intro mult_mono) simp_all
  note den = den1 den2
  have num1: "0 \<le> nw * nh" using assms(1,3) by simp
  have num2: "nw * nh \<le> 2 ^ 50 * 2 ^ 50" using assms(1-4) by (intro mult_mono) simp_all
  note num = num1 num2
  define N :: rat where "N = of_int (nw * nh)"
  define D :: rat where "D = of_int (ow * oh)"
  have D: "1 \<le> D" "D \<le> 2 ^ 100"
  proof -
    have "(of_int 1 :: rat) \<le> of_int (ow * oh)" "(of_int (ow * oh) :: rat) \<le> of_int (2 ^ 50 * 2 ^ 50)"
      using den by (simp_all only: of_int_le_iff)
    then show "1 \<le> D" "D \<le> 2 ^ 100" by (simp_all add: D_def)
  qed
  have unfolded: "int_truediv (nw * nh) (ow * oh) = fl (N / D)"
    using den(1) by (auto simp: int_truediv_def N_def D_def)
  show ?thesis
  proof (cases "nw * nh = 0")
    case True
    then have "N = 0" by (simp only: N_def of_int_0)
    then show ?thesis by (simp add: unfolded fl_zero)
  next
    case False
    with num(1) have "0 < nw * nh" by (simp only: order.strict_iff_order) simp
    then have "1 \<le> nw * nh" by linarith
    then have "(of_int 1 :: rat) \<le> of_int (nw * nh)" by (simp only: of_int_le_iff)
    moreover have "(of_int (nw * nh) :: rat) \<le> of_int (2 ^ 50 * 2 ^ 50)"
      using num(2) by (simp only: of_int_le_iff)
    ultimately have N: "1 \<le> N" "N \<le> 2 ^ 100" by (simp_all add: N_def)
    define R where "R = N / D"
    have R: "1 / 2 ^ 100 \<le> R" "R \<le> 2 ^ 100"
      unfolding R_def using ratio_bounds [OF N D] .
    have "(1::rat) / 2 ^ 200 \<le> 1 / 2 ^ 100" "(2::rat) ^ 100 \<le> 2 ^ 200" by simp_all
    with R have "1 / 2 ^ 200 \<le> R" "R \<le> 2 ^ 200" by linarith+
    from fl_wide [OF this] show ?thesis by (auto simp: unfolded R_def)
  qed
qed

lemma preview_dimensions:
  assumes "get_resize_preview ow oh width height percentage keep = Inr p"
  shows "\<exists>nw nh. new_dimensions ow oh width height percentage keep = Inr (nw, nh)
      \<and> new_width p = max 1 nw \<and> new_height p = max 1 nh"
  using assms
  by (auto simp: get_resize_preview_def and_then_def split: sum.splits prod.splits)

lemma resized_dimensions:
  assumes "resize_image io path width height percentage keep quality = Inr r"
  shows "\<exists>ow oh nw nh. opened io = Inr (ow, oh)
      \<and> new_dimensions ow oh width height percentage keep = Inr (nw, nh)
      \<and> resized_to r = (max 1 nw, max 1 nh)"
  using assms
  by (auto simp: resize_image_def and_then_def Let_def split: sum.splits prod.splits if_splits)


text \<open>
  C9, as stated, fails in its second part. A negative target is raised to the minimum of
  one pixel, which exceeds it; and a target beyond 2^53 is rounded when it is converted
  to a float, here upwards.
\<close>

theorem resize_exceeds_target_counterexample:
  "get_resize_preview 1 1 (Some (- 4)) (Some 2) None True
     = Inr \<lparr>new_width = 1, new_height = 1, is_enlargement = True,
            aspect_ratio_maintained = True\<rparr>
   \<and> \<not> (1::int) \<le> - 4
   \<and> get_resize_preview 1 1 (Some 9007199254740995) (Some 9007199254740995) None True
     = Inr \<lparr>new_width = 9007199254740995, new_height = 9007199254740996,
            is_enlargement = True, aspect_ratio_maintained = True\<rparr>
   \<and> \<not> (9007199254740996::int) \<le> 9007199254740995"
  by code_simp

text \<open>
  C9, amended. Whenever \<open>get_resize_preview\<close> returns dimensions, and whenever
  \<open>resize_image\<close> returns, both dimensions are at least 1. When the original and the
  requested width and height all lie between 1 and 2^50, no percentage is given and
  \<open>maintain_aspect\<close> is true, \<open>get_resize_preview\<close> returns dimensions that do not exceed
  the requested width and height, and so does every \<open>resize_image\<close> that returns.
\<close>

theorem resize_dimensions:
  "(\<forall>p. get_resize_preview ow oh width height percentage keep = Inr p \<longrightarrow>
        1 \<le> new_width p \<and> 1 \<le> new_height p)
   \<and> (\<forall>r. resize_image io path width height percentage keep quality = Inr r \<longrightarrow>
        1 \<le> fst (resized_to r) \<and> 1 \<le> snd (resized_to r))
   \<and> (1 \<le> ow \<and> ow \<le> 2 ^ 50 \<and> 1 \<le> oh \<and> oh \<le> 2 ^ 50
        \<and> 1 \<le> w \<and> w \<le> 2 ^ 50 \<and> 1 \<le> h \<and> h \<le> 2 ^ 50
        \<and> (pct = None \<or> pct = Some 0) \<longrightarrow>
          (\<exists>p. get_resize_preview ow oh (Some w) (Some h) pct True = Inr p
             \<and> new_width p \<le> w \<and> new_height p \<le> h)
          \<and> (\<forall>r. opened io = Inr (ow, oh)
                 \<and> resize_image io path (Some w) (Some h) pct True quality = Inr r \<longrightarrow>
                 fst (resized_to r) \<le> w \<and> snd (resized_to r) \<le> h))"
proof (intro conjI allI impI)
  fix p
  assume "get_resize_preview ow oh width height percentage keep = Inr p"
  from preview_dimensions [OF this]
  show "1 \<le> new_width p" "1 \<le> new_height p" by auto
next
  fix r
  assume "resize_image io path width height percentage keep quality = Inr r"
  from resized_dimensions [OF this]
  show "1 \<le> fst (resized_to r)" "1 \<le> snd (resized_to r)" by auto
next
  assume a: "1 \<le> ow \<and> ow \<le> 2 ^ 50 \<and> 1 \<le> oh \<and> oh \<le> 2 ^ 50
        \<and> 1 \<le> w \<and> w \<le> 2 ^ 50 \<and> 1 \<le> h \<and> h \<le> 2 ^ 50
        \<and> (pct = None \<or> pct = Some 0)"
  then obtain nw nh where
    fit: "new_dimensions ow oh (Some w) (Some h) pct True = Inr (nw, nh)"
      "0 \<le> nw" "nw \<le> w" "0 \<le> nh" "nh \<le> h"
    using fit_inside [of ow oh w h pct] by blast
  have "nw \<le> 2 ^ 50" "nh \<le> 2 ^ 50" using fit(3,5) a by linarith+
  with fit(2,4) a obtain sc where "int_truediv (nw * nh) (ow * oh) = Inr sc"
    using size_change_defined [of nw nh ow oh] by blast
  with fit(1) have "get_resize_preview ow oh (Some w) (Some h) pct True
      = Inr \<lparr>new_width = max 1 nw, new_height = max 1 nh, is_enlargement = (sc > 1),
             aspect_ratio_maintained = True\<rparr>"
    by (simp add: get_resize_preview_def and_then_def)
  moreover have "max 1 nw \<le> w" "max 1 nh \<le> h" using fit(3,5) a by simp_all
  ultimately show "\<exists>p. get_resize_preview ow oh (Some w) (Some h) pct True = Inr p
             \<and> new_width p \<le> w \<and> new_height p \<le> h"
    by simp
next
  fix r
  assume a: "1 \<le> ow \<and> ow \<le> 2 ^ 50 \<and> 1 \<le> oh \<and> oh \<le> 2 ^ 50
        \<and> 1 \<le> w \<and> w \<le> 2 ^ 50 \<and> 1 \<le> h \<and> h \<le> 2 ^ 50
        \<and> (pct = None \<or> pct = Some 0)"
    and b: "opened io = Inr (ow, oh)
                 \<and> resize_image io path (Some w) (Some h) pct True quality = Inr r"
  from a obtain nw nh where
    fit: "new_dimensions ow oh (Some w) (Some h) pct True = Inr (nw, nh)"
      "0 \<le> nw" "nw \<le> w" "0 \<le> nh" "nh \<le> h"
    using fit_inside [of ow oh w h pct] by blast
  from b resized_dimensions [of io path "Some w" "Some h" pct True quality r] fit(1)
  have "resized_to r = (max 1 nw, max 1 nh)" by auto
  with fit(3,5) a show "fst (resized_to r) \<le> w" "snd (resized_to r) \<le> h" by simp_all
qed

lemma example_preview:
  "get_resize_preview 4 3 (Some 100) (Some 100) None True
     = Inr \<lparr>new_width = 100, new_height = 75, is_enlargement = True,
            aspect_ratio_maintained = True\<rparr>"
  by code_simp

lemma example_resize:
  "resize_image photo ''in.jpg'' (Some 100) (Some 100) None True 95
     = Inr \<lparr>saved_as = ''resized_1.jpeg'', resized_to = (100, 75)\<rparr>"
  by code_simp

theorem resize_dimensions_witness:
  "get_resize_preview 4 3 (Some 100) (Some 100) None True
     = Inr \<lparr>new_width = 100, new_height = 75, is_enlargement = True,
            aspect_ratio_maintained = True\<rparr>
   \<and> opened photo = Inr (4, 3)
   \<and> resize_image photo ''in.jpg'' (Some 100) (Some 100) None True 95
     = Inr \<lparr>saved_as = ''resized_1.jpeg'', resized_to = (100, 75)\<rparr>
   \<and> (1::int) \<le> 75 \<and> (75::int) \<le> 100 \<and> (100::int) \<le> 2 ^ 50"
  using resize_dimensions [where ow = 4 and oh = 3 and w = 100 and h = 100 and pct = None
      and io = photo and path = "''in.jpg''" and quality = 95 and width = "Some 100"
      and height = "Some 100" and percentage = None and keep = True]
    example_preview example_resize
  by (simp add: photo_def)

end
